theory Spec2Isabelle
  imports Complex_Main "HOL-Library.AList"
begin

section \<open>Conventions of the embedding\<close>

text \<open>
  The services of the backend compute with Python floats. The embedding reads every
  float as a \<^typ>\<open>real\<close> and every decimal literal of the source (\<open>0.35\<close>, \<open>13.3\<close>)
  as the rational it denotes, so sums and products are exact. A Python dictionary is an
  association list in insertion order, read with \<^const>\<open>map_of\<close> and written with
  \<^const>\<open>AList.update\<close> (replace in place, or append a new key at the end), which is
  the order Python iterates in. Exceptions are values of the type \<open>error\<close>.
\<close>

datatype error = ValueError | TypeError | ZeroDivisionError | OverflowError

text \<open>\<open>d.get(k, default)\<close> on a dictionary of numbers.\<close>

definition dget :: "(string \<times> 'a) list \<Rightarrow> string \<Rightarrow> 'a \<Rightarrow> 'a" where
  "dget d k dflt = (case map_of d k of Some v \<Rightarrow> v | None \<Rightarrow> dflt)"

text \<open>\<open>k in d\<close>.\<close>

definition has_key :: "(string \<times> 'a) list \<Rightarrow> string \<Rightarrow> bool" where
  "has_key d k = (map_of d k \<noteq> None)"

text \<open>
  Python's \<open>round(x)\<close> and \<open>round(x, n)\<close>: to the nearest value, a tie going to the
  even neighbour.
\<close>

definition py_round0 :: "real \<Rightarrow> int" where
  "py_round0 x =
     (let f = \<lfloor>x\<rfloor>; d = x - of_int f
      in if d < 1 / 2 then f
         else if 1 / 2 < d then f + 1
         else if even f then f else f + 1)"

definition py_round :: "real \<Rightarrow> nat \<Rightarrow> real" where
  "py_round x n = of_int (py_round0 (x * 10 ^ n)) / 10 ^ n"

text \<open>True division \<open>a / b\<close>, which raises on a zero divisor.\<close>

definition py_div :: "real \<Rightarrow> real \<Rightarrow> error + real" where
  "py_div a b = (if b = 0 then Inl ZeroDivisionError else Inr (a / b))"

text \<open>Sequencing of computations that may raise.\<close>

definition ebind :: "error + 'a \<Rightarrow> ('a \<Rightarrow> error + 'b) \<Rightarrow> error + 'b" where
  "ebind m f = (case m of Inl e \<Rightarrow> Inl e | Inr v \<Rightarrow> f v)"

section \<open>health_score_engine.py: HealthScoreEngine\<close>

record weights =
  liquidity :: real
  profitability :: real
  solvency :: real
  efficiency :: real
  cash_flow :: real

definition INDUSTRY_WEIGHTS :: "(string \<times> weights) list" where
  "INDUSTRY_WEIGHTS =
    [(''Manufacturing'',
        \<lparr>liquidity = 0.20, profitability = 0.25, solvency = 0.20, efficiency = 0.20, cash_flow = 0.15\<rparr>),
     (''Retail'',
        \<lparr>liquidity = 0.25, profitability = 0.20, solvency = 0.15, efficiency = 0.25, cash_flow = 0.15\<rparr>),
     (''Agriculture'',
        \<lparr>liquidity = 0.30, profitability = 0.20, solvency = 0.15, efficiency = 0.15, cash_flow = 0.20\<rparr>),
     (''Services'',
        \<lparr>liquidity = 0.20, profitability = 0.30, solvency = 0.15, efficiency = 0.15, cash_flow = 0.20\<rparr>),
     (''Logistics'',
        \<lparr>liquidity = 0.20, profitability = 0.20, solvency = 0.25, efficiency = 0.20, cash_flow = 0.15\<rparr>),
     (''E-commerce'',
        \<lparr>liquidity = 0.25, profitability = 0.20, solvency = 0.15, efficiency = 0.20, cash_flow = 0.20\<rparr>)]"

definition DEFAULT_WEIGHTS :: weights where
  "DEFAULT_WEIGHTS =
     \<lparr>liquidity = 0.20, profitability = 0.25, solvency = 0.20, efficiency = 0.15, cash_flow = 0.20\<rparr>"

text \<open>\<open>self.INDUSTRY_WEIGHTS.get(industry, self.DEFAULT_WEIGHTS)\<close>.\<close>

definition weights_for :: "string \<Rightarrow> weights" where
  "weights_for industry = dget INDUSTRY_WEIGHTS industry DEFAULT_WEIGHTS"

definition weight_sum :: "weights \<Rightarrow> real" where
  "weight_sum w = liquidity w + profitability w + solvency w + efficiency w + cash_flow w"

text \<open>
  The scoring methods compute each sub-metric score in an \<open>if\<close>/\<open>elif\<close> chain on a local
  variable and combine them in the \<open>return\<close>. Each chain is a definition of its own
  here, named after the local variable it assigns (with the category as a prefix where
  two methods reuse a name), and each method is the combination the source returns.
\<close>

subsection \<open>\<open>_score_liquidity\<close>\<close>

definition liq_cr_score :: "real \<Rightarrow> real" where
  "liq_cr_score current_ratio =
     (if current_ratio \<ge> 2.0 then 100
      else if current_ratio \<ge> 1.5 then 80 + (current_ratio - 1.5) * 40
      else if current_ratio \<ge> 1.0 then 50 + (current_ratio - 1.0) * 60
      else if current_ratio \<ge> 0.5 then 20 + (current_ratio - 0.5) * 60
      else current_ratio * 40)"

definition liq_qr_score :: "real \<Rightarrow> real" where
  "liq_qr_score quick_ratio =
     (if quick_ratio \<ge> 1.5 then 100
      else if quick_ratio \<ge> 1.0 then 70 + (quick_ratio - 1.0) * 60
      else if quick_ratio \<ge> 0.5 then 30 + (quick_ratio - 0.5) * 80
      else quick_ratio * 60)"

definition liq_cash_score :: "real \<Rightarrow> real" where
  "liq_cash_score cash_ratio =
     (if cash_ratio \<ge> 1.0 then 100
      else if cash_ratio \<ge> 0.5 then 70 + (cash_ratio - 0.5) * 60
      else if cash_ratio \<ge> 0.2 then 30 + (cash_ratio - 0.2) * 133
      else cash_ratio * 150)"

definition score_liquidity :: "(string \<times> real) list \<Rightarrow> real" where
  "score_liquidity metrics =
     (let current_ratio = dget metrics ''current_ratio'' 0;
          quick_ratio = dget metrics ''quick_ratio'' 0;
          cash_ratio = dget metrics ''cash_ratio'' 0
      in liq_cr_score current_ratio * 0.4 + liq_qr_score quick_ratio * 0.35
         + liq_cash_score cash_ratio * 0.25)"

subsection \<open>\<open>_score_profitability\<close>\<close>

definition gm_score :: "real \<Rightarrow> real" where
  "gm_score gross_margin =
     (if gross_margin \<ge> 50 then 100
      else if gross_margin \<ge> 30 then 60 + (gross_margin - 30) * 2
      else if gross_margin \<ge> 15 then 30 + (gross_margin - 15) * 2
      else if gross_margin > 0 then gross_margin * 2
      else 0)"

definition nm_score :: "real \<Rightarrow> real" where
  "nm_score net_margin =
     (if net_margin \<ge> 20 then 100
      else if net_margin \<ge> 10 then 60 + (net_margin - 10) * 4
      else if net_margin \<ge> 5 then 30 + (net_margin - 5) * 6
      else if net_margin > 0 then net_margin * 6
      else 0)"

definition roe_score :: "real \<Rightarrow> real" where
  "roe_score roe =
     (if roe \<ge> 25 then 100
      else if roe \<ge> 15 then 60 + (roe - 15) * 4
      else if roe \<ge> 5 then 20 + (roe - 5) * 4
      else if roe > 0 then roe * 4
      else 0)"

definition score_profitability :: "(string \<times> real) list \<Rightarrow> real" where
  "score_profitability metrics =
     (let gross_margin = dget metrics ''gross_margin'' 0;
          net_margin = dget metrics ''net_margin'' 0;
          roe = dget metrics ''roe'' 0
      in gm_score gross_margin * 0.3 + nm_score net_margin * 0.4 + roe_score roe * 0.3)"

subsection \<open>\<open>_score_solvency\<close>\<close>

definition de_score :: "real \<Rightarrow> real" where
  "de_score debt_to_equity =
     (if debt_to_equity \<le> 0.5 then 100
      else if debt_to_equity \<le> 1.0 then 70 + (1.0 - debt_to_equity) * 60
      else if debt_to_equity \<le> 2.0 then 30 + (2.0 - debt_to_equity) * 40
      else if debt_to_equity \<le> 3.0 then (3.0 - debt_to_equity) * 30
      else 0)"

definition dr_score :: "real \<Rightarrow> real" where
  "dr_score debt_ratio =
     (if debt_ratio \<le> 0.3 then 100
      else if debt_ratio \<le> 0.5 then 70 + (0.5 - debt_ratio) * 150
      else if debt_ratio \<le> 0.7 then 30 + (0.7 - debt_ratio) * 200
      else max 0 ((1.0 - debt_ratio) * 100))"

definition ic_score :: "real \<Rightarrow> real" where
  "ic_score interest_coverage =
     (if interest_coverage \<ge> 5 then 100
      else if interest_coverage \<ge> 3 then 70 + (interest_coverage - 3) * 15
      else if interest_coverage \<ge> 1.5 then 30 + (interest_coverage - 1.5) * 27
      else if interest_coverage > 1 then (interest_coverage - 1) * 60
      else 0)"

definition score_solvency :: "(string \<times> real) list \<Rightarrow> real" where
  "score_solvency metrics =
     (let debt_to_equity = dget metrics ''debt_to_equity'' 0;
          debt_ratio = dget metrics ''debt_ratio'' 0;
          interest_coverage = dget metrics ''interest_coverage'' 0
      in de_score debt_to_equity * 0.35 + dr_score debt_ratio * 0.35
         + ic_score interest_coverage * 0.30)"

subsection \<open>\<open>_score_efficiency\<close>\<close>

definition it_score :: "real \<Rightarrow> real" where
  "it_score inventory_turnover =
     (if inventory_turnover \<ge> 10 then 100
      else if inventory_turnover \<ge> 5 then 60 + (inventory_turnover - 5) * 8
      else if inventory_turnover \<ge> 2 then 20 + (inventory_turnover - 2) * 13.3
      else if inventory_turnover > 0 then inventory_turnover * 10
      else 50)"

definition rt_score :: "real \<Rightarrow> real" where
  "rt_score receivables_turnover =
     (if receivables_turnover \<ge> 12 then 100
      else if receivables_turnover \<ge> 8 then 70 + (receivables_turnover - 8) * 7.5
      else if receivables_turnover \<ge> 4 then 30 + (receivables_turnover - 4) * 10
      else if receivables_turnover > 0 then receivables_turnover * 7.5
      else 50)"

definition at_score :: "real \<Rightarrow> real" where
  "at_score asset_turnover =
     (if asset_turnover \<ge> 2.0 then 100
      else if asset_turnover \<ge> 1.0 then 50 + (asset_turnover - 1.0) * 50
      else if asset_turnover \<ge> 0.5 then 20 + (asset_turnover - 0.5) * 60
      else if asset_turnover > 0 then asset_turnover * 40
      else 0)"

definition score_efficiency :: "(string \<times> real) list \<Rightarrow> real" where
  "score_efficiency metrics =
     (let inventory_turnover = dget metrics ''inventory_turnover'' 0;
          receivables_turnover = dget metrics ''receivables_turnover'' 0;
          asset_turnover = dget metrics ''asset_turnover'' 0
      in it_score inventory_turnover * 0.35 + rt_score receivables_turnover * 0.35
         + at_score asset_turnover * 0.30)"

subsection \<open>\<open>_score_cash_flow\<close>\<close>

definition cf_cr_score :: "real \<Rightarrow> real" where
  "cf_cr_score cash_runway =
     (if cash_runway \<ge> 365 then 100
      else if cash_runway \<ge> 180 then 70 + (cash_runway - 180) * 0.16
      else if cash_runway \<ge> 90 then 40 + (cash_runway - 90) * 0.33
      else if cash_runway \<ge> 30 then 10 + (cash_runway - 30) * 0.5
      else cash_runway * 0.33)"

definition wc_score :: "real \<Rightarrow> real" where
  "wc_score working_capital =
     (if working_capital > 0 then min 100 (50 + (working_capital / 10000) * 5)
      else max 0 (50 + (working_capital / 10000) * 5))"

definition wcc_score :: "real \<Rightarrow> real" where
  "wcc_score wc_cycle =
     (if wc_cycle \<le> 30 then 100
      else if wc_cycle \<le> 60 then 70 + (60 - wc_cycle) * 1
      else if wc_cycle \<le> 90 then 40 + (90 - wc_cycle) * 1
      else if wc_cycle \<le> 120 then 20 + (120 - wc_cycle) * 0.67
      else max 0 (20 - (wc_cycle - 120) * 0.2))"

definition score_cash_flow :: "(string \<times> real) list \<Rightarrow> real" where
  "score_cash_flow metrics =
     (let cash_runway = dget metrics ''cash_runway_days'' 0;
          working_capital = dget metrics ''working_capital'' 0;
          wc_cycle = dget metrics ''working_capital_cycle'' 0
      in cf_cr_score cash_runway * 0.4 + wc_score working_capital * 0.3
         + wcc_score wc_cycle * 0.3)"

subsection \<open>Grade, risk level and the composite score\<close>

definition calculate_grade :: "real \<Rightarrow> string" where
  "calculate_grade score =
     (if score \<ge> 90 then ''A+''
      else if score \<ge> 85 then ''A''
      else if score \<ge> 80 then ''A-''
      else if score \<ge> 75 then ''B+''
      else if score \<ge> 70 then ''B''
      else if score \<ge> 65 then ''B-''
      else if score \<ge> 60 then ''C+''
      else if score \<ge> 55 then ''C''
      else if score \<ge> 50 then ''C-''
      else if score \<ge> 40 then ''D''
      else ''F'')"

definition calculate_risk_level :: "real \<Rightarrow> string" where
  "calculate_risk_level score =
     (if score \<ge> 75 then ''Low''
      else if score \<ge> 55 then ''Medium''
      else if score \<ge> 35 then ''High''
      else ''Critical'')"

record score_result =
  overall_score :: real
  grade :: string
  liquidity_score :: real
  profitability_score :: real
  solvency_score :: real
  efficiency_score :: real
  cash_flow_score :: real
  risk_level :: string
  weights_used :: weights

definition calculate_health_score :: "(string \<times> real) list \<Rightarrow> string \<Rightarrow> score_result" where
  "calculate_health_score metrics industry =
     (let w = weights_for industry;
          liquidity_s = score_liquidity metrics;
          profitability_s = score_profitability metrics;
          solvency_s = score_solvency metrics;
          efficiency_s = score_efficiency metrics;
          cash_flow_s = score_cash_flow metrics;
          overall = liquidity_s * liquidity w + profitability_s * profitability w
                    + solvency_s * solvency w + efficiency_s * efficiency w
                    + cash_flow_s * cash_flow w
      in \<lparr>overall_score = py_round overall 1,
          grade = calculate_grade overall,
          liquidity_score = py_round liquidity_s 1,
          profitability_score = py_round profitability_s 1,
          solvency_score = py_round solvency_s 1,
          efficiency_score = py_round efficiency_s 1,
          cash_flow_score = py_round cash_flow_s 1,
          risk_level = calculate_risk_level overall,
          weights_used = w\<rparr>)"

section \<open>industry_benchmark.py: IndustryBenchmark\<close>

record benchmark =
  low :: real
  median :: real
  high :: real

definition BENCHMARKS :: "(string \<times> (string \<times> benchmark) list) list" where
  "BENCHMARKS =
    [(''Manufacturing'',
       [(''current_ratio'', \<lparr>low = 1.2, median = 1.5, high = 2.0\<rparr>),
        (''quick_ratio'', \<lparr>low = 0.8, median = 1.0, high = 1.3\<rparr>),
        (''gross_margin'', \<lparr>low = 20, median = 30, high = 40\<rparr>),
        (''net_margin'', \<lparr>low = 5, median = 10, high = 15\<rparr>),
        (''debt_to_equity'', \<lparr>low = 0.8, median = 1.2, high = 1.8\<rparr>),
        (''inventory_turnover'', \<lparr>low = 4, median = 6, high = 10\<rparr>),
        (''asset_turnover'', \<lparr>low = 0.8, median = 1.2, high = 1.8\<rparr>),
        (''cash_runway_days'', \<lparr>low = 60, median = 120, high = 200\<rparr>)]),
     (''Retail'',
       [(''current_ratio'', \<lparr>low = 1.0, median = 1.3, high = 1.8\<rparr>),
        (''quick_ratio'', \<lparr>low = 0.5, median = 0.8, high = 1.2\<rparr>),
        (''gross_margin'', \<lparr>low = 25, median = 35, high = 50\<rparr>),
        (''net_margin'', \<lparr>low = 3, median = 6, high = 12\<rparr>),
        (''debt_to_equity'', \<lparr>low = 0.5, median = 1.0, high = 1.5\<rparr>),
        (''inventory_turnover'', \<lparr>low = 6, median = 10, high = 15\<rparr>),
        (''asset_turnover'', \<lparr>low = 1.5, median = 2.5, high = 4.0\<rparr>),
        (''cash_runway_days'', \<lparr>low = 45, median = 90, high = 150\<rparr>)]),
     (''Agriculture'',
       [(''current_ratio'', \<lparr>low = 1.0, median = 1.4, high = 2.0\<rparr>),
        (''quick_ratio'', \<lparr>low = 0.6, median = 0.9, high = 1.2\<rparr>),
        (''gross_margin'', \<lparr>low = 15, median = 25, high = 40\<rparr>),
        (''net_margin'', \<lparr>low = 5, median = 12, high = 20\<rparr>),
        (''debt_to_equity'', \<lparr>low = 0.6, median = 1.0, high = 1.6\<rparr>),
        (''inventory_turnover'', \<lparr>low = 2, median = 4, high = 6\<rparr>),
        (''asset_turnover'', \<lparr>low = 0.5, median = 0.8, high = 1.2\<rparr>),
        (''cash_runway_days'', \<lparr>low = 90, median = 180, high = 300\<rparr>)]),
     (''Services'',
       [(''current_ratio'', \<lparr>low = 1.3, median = 1.8, high = 2.5\<rparr>),
        (''quick_ratio'', \<lparr>low = 1.2, median = 1.7, high = 2.3\<rparr>),
        (''gross_margin'', \<lparr>low = 40, median = 55, high = 70\<rparr>),
        (''net_margin'', \<lparr>low = 8, median = 15, high = 25\<rparr>),
        (''debt_to_equity'', \<lparr>low = 0.3, median = 0.6, high = 1.0\<rparr>),
        (''inventory_turnover'', \<lparr>low = 0, median = 0, high = 0\<rparr>),
        (''asset_turnover'', \<lparr>low = 1.0, median = 1.8, high = 2.8\<rparr>),
        (''cash_runway_days'', \<lparr>low = 60, median = 120, high = 200\<rparr>)]),
     (''Logistics'',
       [(''current_ratio'', \<lparr>low = 1.1, median = 1.4, high = 1.9\<rparr>),
        (''quick_ratio'', \<lparr>low = 0.9, median = 1.2, high = 1.6\<rparr>),
        (''gross_margin'', \<lparr>low = 15, median = 25, high = 35\<rparr>),
        (''net_margin'', \<lparr>low = 3, median = 7, high = 12\<rparr>),
        (''debt_to_equity'', \<lparr>low = 1.0, median = 1.5, high = 2.5\<rparr>),
        (''inventory_turnover'', \<lparr>low = 8, median = 15, high = 25\<rparr>),
        (''asset_turnover'', \<lparr>low = 1.2, median = 1.8, high = 2.5\<rparr>),
        (''cash_runway_days'', \<lparr>low = 45, median = 90, high = 150\<rparr>)]),
     (''E-commerce'',
       [(''current_ratio'', \<lparr>low = 1.2, median = 1.6, high = 2.2\<rparr>),
        (''quick_ratio'', \<lparr>low = 0.8, median = 1.2, high = 1.8\<rparr>),
        (''gross_margin'', \<lparr>low = 20, median = 35, high = 50\<rparr>),
        (''net_margin'', \<lparr>low = 2, median = 8, high = 15\<rparr>),
        (''debt_to_equity'', \<lparr>low = 0.4, median = 0.8, high = 1.4\<rparr>),
        (''inventory_turnover'', \<lparr>low = 8, median = 12, high = 20\<rparr>),
        (''asset_turnover'', \<lparr>low = 1.8, median = 3.0, high = 5.0\<rparr>),
        (''cash_runway_days'', \<lparr>low = 60, median = 120, high = 200\<rparr>)])]"

text \<open>
  \<open>_calculate_percentile\<close>. The three divisions are written with \<^const>\<open>py_div\<close>: the
  first is guarded by \<open>low > 0\<close>, the next two by the comparisons before them, the last
  (\<open>/ high\<close>) by nothing.
\<close>

definition calculate_percentile :: "real \<Rightarrow> real \<Rightarrow> real \<Rightarrow> real \<Rightarrow> error + real" where
  "calculate_percentile val lo med hi =
     (if val \<le> lo then
        (if lo > 0 then ebind (py_div val lo) (\<lambda>q. Inr (min 25 (q * 25))) else Inr 0)
      else if val \<le> med then
        ebind (py_div (val - lo) (med - lo)) (\<lambda>q. Inr (25 + q * 25))
      else if val \<le> hi then
        ebind (py_div (val - med) (hi - med)) (\<lambda>q. Inr (50 + q * 25))
      else
        ebind (py_div (val - hi) hi) (\<lambda>q. Inr (min 100 (75 + q * 25))))"

definition get_position_label :: "real \<Rightarrow> string" where
  "get_position_label p =
     (if p \<ge> 75 then ''Top Quartile (Industry Leader)''
      else if p \<ge> 50 then ''Above Average''
      else if p \<ge> 25 then ''Below Average''
      else ''Bottom Quartile (Needs Attention)'')"

record comparison_entry =
  company_value :: real
  industry_low :: real
  industry_median :: real
  industry_high :: real
  entry_percentile :: real
  status :: string

record summary_item =
  item_metric :: string
  item_value :: real
  item_percentile :: real

record benchmark_summary =
  overall_position :: string
  top_strengths :: "summary_item list"
  areas_for_improvement :: "summary_item list"

definition summary_item_of :: "string \<times> comparison_entry \<Rightarrow> summary_item" where
  "summary_item_of me =
     \<lparr>item_metric = fst me, item_value = company_value (snd me),
      item_percentile = entry_percentile (snd me)\<rparr>"

text \<open>
  \<open>_generate_benchmark_summary\<close>. \<open>list.sort\<close> is stable, and with \<open>reverse=True\<close> it
  keeps equal elements in their original order; \<^const>\<open>sort_key\<close> is a stable insertion
  sort, used here on the negated key for the descending order.
\<close>

definition generate_benchmark_summary ::
    "(string \<times> comparison_entry) list \<Rightarrow> real \<Rightarrow> benchmark_summary" where
  "generate_benchmark_summary comparison overall_percentile =
     (let strengths = map summary_item_of
            (filter (\<lambda>me. status (snd me) \<in> set [''excellent'', ''good'']) comparison);
          weaknesses = map summary_item_of
            (filter (\<lambda>me. \<not> status (snd me) \<in> set [''excellent'', ''good'']
                          \<and> status (snd me) = ''below_average'') comparison)
      in \<lparr>overall_position = get_position_label overall_percentile,
          top_strengths = take 3 (sort_key (\<lambda>x. - item_percentile x) strengths),
          areas_for_improvement = take 3 (sort_key item_percentile weaknesses)\<rparr>)"

text \<open>
  The loop of \<open>compare_to_industry\<close> over the benchmarks of the industry, carrying the
  comparison built so far, the percentile sum and the count.
\<close>

fun compare_loop ::
    "(string \<times> real) list \<Rightarrow> (string \<times> benchmark) list
       \<Rightarrow> (string \<times> comparison_entry) list \<times> real \<times> nat
       \<Rightarrow> error + ((string \<times> comparison_entry) list \<times> real \<times> nat)" where
  "compare_loop metrics [] acc = Inr acc"
| "compare_loop metrics ((metric, b) # rest) (comparison, percentile_sum, percentile_count) =
     (let company_val = dget metrics metric 0
      in if low b = high b \<and> high b = 0 then
           compare_loop metrics rest (comparison, percentile_sum, percentile_count)
         else
           ebind (calculate_percentile company_val (low b) (median b) (high b)) (\<lambda>p.
             let st = (if company_val \<ge> high b then ''excellent''
                       else if company_val \<ge> median b then ''good''
                       else if company_val \<ge> low b then ''average''
                       else ''below_average'');
                 entry = \<lparr>company_value = py_round company_val 2,
                          industry_low = low b, industry_median = median b,
                          industry_high = high b, entry_percentile = p, status = st\<rparr>
             in compare_loop metrics rest
                  (AList.update metric entry comparison, percentile_sum + p,
                   percentile_count + 1)))"

record benchmark_result =
  bench_industry :: string
  bench_percentile :: real
  bench_comparison :: "(string \<times> comparison_entry) list"
  bench_summary :: benchmark_summary

definition compare_to_industry ::
    "(string \<times> real) list \<Rightarrow> string \<Rightarrow> error + benchmark_result" where
  "compare_to_industry metrics industry =
     (let benchmarks = dget BENCHMARKS industry (dget BENCHMARKS ''Services'' [])
      in ebind (compare_loop metrics benchmarks ([], 0, 0))
           (\<lambda>(comparison, percentile_sum, percentile_count).
              let overall_percentile =
                    (if percentile_count > 0 then percentile_sum / real percentile_count
                     else 50)
              in Inr \<lparr>bench_industry = industry,
                      bench_percentile = py_round overall_percentile 1,
                      bench_comparison = comparison,
                      bench_summary =
                        generate_benchmark_summary comparison overall_percentile\<rparr>))"

section \<open>Parsed financial data\<close>

text \<open>
  The document parser hands over a dictionary with an optional \<open>summary\<close> block of
  totals and an optional \<open>financial_data\<close> block: one entry per recognised column, in
  column order, with a \<open>category\<close> and a float \<open>total\<close>. The calculator and the
  forecasting engine read both fields with \<open>info.get\<close>, so each may be absent.
\<close>

record col_info =
  info_category :: "string option"
  info_total :: "real option"

text \<open>
  The other top-level entries of the dictionary come from JSON and may hold any value.
  Containers are kept without their contents: the services only pass these values to
  \<open>float()\<close> or divide them.
\<close>

datatype pyval = PNum real | PInt int | PBool bool | PStr string | PNone | PList | PDict

record raw_data =
  raw_fields :: "(string \<times> pyval) list"
  raw_summary :: "(string \<times> real) list option"
  raw_financial_data :: "(string \<times> col_info) list option"

text \<open>
  A JSON number is a float (\<open>PNum\<close>, a finite double read as the real it denotes) or an
  integer of any size (\<open>PInt\<close>). An integer becomes a float when it meets one; that
  conversion raises \<open>OverflowError\<close> for an integer that rounds beyond the largest
  double, which is one of magnitude \<open>2^1024 - 2^970\<close> or more. A quotient of floats too
  small for the smallest subnormal double, of magnitude \<open>2^-1075\<close> or less, is the
  float zero.
\<close>

definition FLOAT_OVERFLOW :: real where
  "FLOAT_OVERFLOW = 2 ^ 1024 - 2 ^ 970"

definition int_to_float :: "int \<Rightarrow> error + real" where
  "int_to_float n =
     (if \<bar>real_of_int n\<bar> < FLOAT_OVERFLOW then Inr (real_of_int n) else Inl OverflowError)"

definition flush :: "real \<Rightarrow> real" where
  "flush q = (if \<bar>q\<bar> \<le> 1 / 2 ^ 1075 then 0 else q)"

text \<open>Division of floats: \<open>ZeroDivisionError\<close> on a zero divisor, underflow to zero.\<close>

definition float_div :: "real \<Rightarrow> real \<Rightarrow> error + real" where
  "float_div a b = (if b = 0 then Inl ZeroDivisionError else Inr (flush (a / b)))"

text \<open>
  \<open>float(v)\<close>. A float is returned as it is, an integer is converted, \<open>True\<close> and
  \<open>False\<close> are 1 and 0, \<open>None\<close> and containers raise \<open>TypeError\<close>. What \<open>float()\<close>
  reads from a string is the standard library's business and an argument here:
  \<open>str_float s\<close> is the number for a string \<open>float()\<close> accepts and \<open>None\<close> for one
  it rejects with \<open>ValueError\<close>.
\<close>

definition py_float :: "(string \<Rightarrow> real option) \<Rightarrow> pyval \<Rightarrow> error + real" where
  "py_float str_float v =
     (case v of
        PNum x \<Rightarrow> Inr x
      | PInt n \<Rightarrow> int_to_float n
      | PBool b \<Rightarrow> Inr (if b then 1 else 0)
      | PStr s \<Rightarrow> (case str_float s of Some x \<Rightarrow> Inr x | None \<Rightarrow> Inl ValueError)
      | PNone \<Rightarrow> Inl TypeError
      | PList \<Rightarrow> Inl TypeError
      | PDict \<Rightarrow> Inl TypeError)"

text \<open>
  \<open>v / 12\<close> on a value that has not been through \<open>float()\<close>: only numbers divide. The
  quotient of two integers raises \<open>OverflowError\<close> when it is too large for a float.
\<close>

definition py_div_num :: "pyval \<Rightarrow> int \<Rightarrow> error + real" where
  "py_div_num v d =
     (case v of
        PNum x \<Rightarrow> float_div x (real_of_int d)
      | PInt n \<Rightarrow>
          (if d = 0 then Inl ZeroDivisionError
           else if \<bar>real_of_int n / real_of_int d\<bar> < FLOAT_OVERFLOW
             then Inr (flush (real_of_int n / real_of_int d))
           else Inl OverflowError)
      | PBool b \<Rightarrow>
          (if d = 0 then Inl ZeroDivisionError
           else Inr (flush ((if b then 1 else 0) / real_of_int d)))
      | PStr s \<Rightarrow> Inl TypeError
      | PNone \<Rightarrow> Inl TypeError
      | PList \<Rightarrow> Inl TypeError
      | PDict \<Rightarrow> Inl TypeError)"

text \<open>
  \<open>str.lower()\<close> on the letters \<open>A\<close> to \<open>Z\<close> (column names are read as ASCII), and the
  substring test \<open>sub in s\<close>.
\<close>

definition lower_char :: "char \<Rightarrow> char" where
  "lower_char c =
     (let n = (of_char c :: nat) in if 65 \<le> n \<and> n \<le> 90 then char_of (n + 32) else c)"

definition py_lower :: "string \<Rightarrow> string" where
  "py_lower s = map lower_char s"

fun contains :: "string \<Rightarrow> string \<Rightarrow> bool" where
  "contains sub [] = (sub = [])"
| "contains sub (c # cs) = (take (length sub) (c # cs) = sub \<or> contains sub cs)"

section \<open>forecasting_engine.py: ForecastingEngine\<close>

record growth_rates =
  base :: real
  optimistic :: real
  pessimistic :: real

definition INDUSTRY_GROWTH_RATES :: "(string \<times> growth_rates) list" where
  "INDUSTRY_GROWTH_RATES =
    [(''Manufacturing'', \<lparr>base = 8, optimistic = 15, pessimistic = 3\<rparr>),
     (''Retail'', \<lparr>base = 10, optimistic = 18, pessimistic = 4\<rparr>),
     (''Agriculture'', \<lparr>base = 5, optimistic = 12, pessimistic = -2\<rparr>),
     (''Services'', \<lparr>base = 12, optimistic = 22, pessimistic = 5\<rparr>),
     (''Logistics'', \<lparr>base = 10, optimistic = 18, pessimistic = 4\<rparr>),
     (''E-commerce'', \<lparr>base = 20, optimistic = 35, pessimistic = 8\<rparr>)]"

text \<open>\<open>growth_rates.items()\<close>: every rate dictionary has these three keys in this order.\<close>

definition growth_items :: "growth_rates \<Rightarrow> (string \<times> real) list" where
  "growth_items g =
     [(''base'', base g), (''optimistic'', optimistic g), (''pessimistic'', pessimistic g)]"

text \<open>The dictionary \<open>financials\<close> of \<open>_extract_current_values\<close>, with its five fixed keys.\<close>

record current_values =
  cv_revenue :: real
  cv_expenses :: real
  cv_profit :: real
  cv_cash :: real
  cv_monthly_burn :: real

fun extract_columns :: "(string \<times> col_info) list \<Rightarrow> current_values \<Rightarrow> current_values" where
  "extract_columns [] f = f"
| "extract_columns ((col, info) # rest) f =
     (let category = (case info_category info of Some c \<Rightarrow> c | None \<Rightarrow> '''');
          total = (case info_total info of Some t \<Rightarrow> t | None \<Rightarrow> 0)
      in extract_columns rest
           (if category = ''revenue'' then f\<lparr>cv_revenue := cv_revenue f + total\<rparr>
            else if category = ''expense'' then f\<lparr>cv_expenses := cv_expenses f + total\<rparr>
            else if contains ''cash'' (py_lower col) then f\<lparr>cv_cash := cv_cash f + total\<rparr>
            else f))"

definition extract_current_values :: "raw_data \<Rightarrow> current_values" where
  "extract_current_values raw =
     (let f0 = \<lparr>cv_revenue = 0, cv_expenses = 0, cv_profit = 0, cv_cash = 0,
                cv_monthly_burn = 0\<rparr>;
          f1 = (case raw_summary raw of
                  None \<Rightarrow> f0
                | Some s \<Rightarrow> f0\<lparr>cv_revenue := dget s ''total_revenue'' 0,
                               cv_expenses := dget s ''total_expenses'' 0,
                               cv_profit := dget s ''total_profit'' 0\<rparr>);
          f2 = (case raw_financial_data raw of
                  None \<Rightarrow> f1
                | Some cols \<Rightarrow> extract_columns cols f1);
          f3 = f2\<lparr>cv_monthly_burn := (if cv_expenses f2 > 0 then cv_expenses f2 / 12 else 0)\<rparr>
      in f3\<lparr>cv_profit := cv_revenue f3 - cv_expenses f3\<rparr>)"

subsection \<open>\<open>_forecast_revenue\<close>\<close>

record revenue_forecast =
  current_annual_revenue :: real
  forecasts_3_month :: "(string \<times> real) list"
  forecasts_6_month :: "(string \<times> real) list"
  forecasts_12_month :: "(string \<times> real) list"
  monthly_breakdown :: "(nat \<times> real) list"

text \<open>One pass of the loop over the scenarios, on the three forecast dictionaries.\<close>

definition forecast_step ::
    "real \<Rightarrow> string \<times> real
       \<Rightarrow> (string \<times> real) list \<times> (string \<times> real) list \<times> (string \<times> real) list
       \<Rightarrow> (string \<times> real) list \<times> (string \<times> real) list \<times> (string \<times> real) list" where
  "forecast_step current_revenue sr fs =
     (case (sr, fs) of ((scenario, annual_rate), (f3, f6, f12)) \<Rightarrow>
        let monthly_revenue = current_revenue / 12;
            monthly_rate = annual_rate / 12 / 100
        in (AList.update scenario (py_round (monthly_revenue * 3 * (1 + monthly_rate * 3)) 2) f3,
            AList.update scenario (py_round (monthly_revenue * 6 * (1 + monthly_rate * 6)) 2) f6,
            AList.update scenario (py_round (current_revenue * (1 + annual_rate / 100)) 2) f12))"

definition forecast_revenue :: "current_values \<Rightarrow> growth_rates \<Rightarrow> revenue_forecast" where
  "forecast_revenue financials rates =
     (let current_revenue = cv_revenue financials;
          monthly_revenue = current_revenue / 12;
          forecasts = fold (forecast_step current_revenue) (growth_items rates) ([], [], []);
          base_monthly_rate = base rates / 12 / 100;
          monthly_forecast =
            map (\<lambda>month. (month, py_round (monthly_revenue * (1 + base_monthly_rate * real month)) 2))
              [1 ..< 13]
      in \<lparr>current_annual_revenue = current_revenue,
          forecasts_3_month = fst forecasts,
          forecasts_6_month = fst (snd forecasts),
          forecasts_12_month = snd (snd forecasts),
          monthly_breakdown = monthly_forecast\<rparr>)"

subsection \<open>\<open>_forecast_cash_flow\<close>\<close>

record cash_month =
  cm_month :: nat
  inflow :: real
  outflow :: real
  net_flow :: real
  ending_cash :: real

fun cash_flow_loop ::
    "real \<Rightarrow> real \<Rightarrow> nat list \<Rightarrow> real \<times> cash_month list \<Rightarrow> real \<times> cash_month list" where
  "cash_flow_loop monthly_revenue monthly_expenses [] st = st"
| "cash_flow_loop monthly_revenue monthly_expenses (month # months) (running_cash, projection) =
     (let inflow_m = monthly_revenue * (1 + 0.01 * real month);
          outflow_m = monthly_expenses * (1 + 0.005 * real month);
          net = inflow_m - outflow_m;
          running = running_cash + net
      in cash_flow_loop monthly_revenue monthly_expenses months
           (running,
            projection @ [\<lparr>cm_month = month, inflow = py_round inflow_m 2,
                            outflow = py_round outflow_m 2, net_flow = py_round net 2,
                            ending_cash = py_round running 2\<rparr>]))"

record cash_flow_projection =
  starting_cash :: real
  monthly_projection :: "cash_month list"
  projected_cash_6m :: real
  average_monthly_net_flow :: real

definition forecast_cash_flow :: "current_values \<Rightarrow> cash_flow_projection" where
  "forecast_cash_flow financials =
     (let cash = cv_cash financials;
          monthly_revenue = cv_revenue financials / 12;
          monthly_expenses = cv_monthly_burn financials;
          res = cash_flow_loop monthly_revenue monthly_expenses [1 ..< 7] (cash, [])
      in \<lparr>starting_cash = cash,
          monthly_projection = snd res,
          projected_cash_6m = py_round (fst res) 2,
          average_monthly_net_flow = py_round (sum_list (map net_flow (snd res)) / 6) 2\<rparr>)"

subsection \<open>\<open>_calculate_break_even\<close>\<close>

record break_even =
  break_even_revenue :: real
  be_current_revenue :: real
  break_even_percentage :: real
  margin_of_safety :: real
  is_profitable :: bool
  fixed_costs_estimate :: real
  contribution_margin :: real

definition calculate_break_even :: "current_values \<Rightarrow> break_even" where
  "calculate_break_even financials =
     (let revenue = cv_revenue financials;
          expenses = cv_expenses financials;
          profit = cv_profit financials;
          fixed_costs = expenses * 0.3;
          variable_costs = expenses * 0.7;
          variable_cost_ratio = (if revenue > 0 then variable_costs / revenue else 0.7);
          contribution = 1 - variable_cost_ratio;
          be_revenue = (if contribution > 0 then fixed_costs / contribution else 0);
          be_percentage = (if revenue > 0 then (be_revenue / revenue) * 100 else 0);
          safety = (if revenue > 0 then ((revenue - be_revenue) / revenue) * 100 else 0)
      in \<lparr>break_even_revenue = py_round be_revenue 2,
          be_current_revenue = revenue,
          break_even_percentage = py_round be_percentage 1,
          margin_of_safety = py_round safety 1,
          is_profitable = (profit > 0),
          fixed_costs_estimate = py_round fixed_costs 2,
          contribution_margin = py_round (contribution * 100) 1\<rparr>)"

subsection \<open>\<open>_generate_scenarios\<close>\<close>

definition get_scenario_description :: "string \<Rightarrow> string" where
  "get_scenario_description scenario =
     dget [(''optimistic'', ''Best case with strong market growth and operational efficiency''),
           (''base'', ''Expected outcome based on current trends and industry averages''),
           (''pessimistic'', ''Conservative estimate accounting for potential challenges'')]
       scenario ''Projected scenario''"

record scenario =
  scenario_name :: string
  growth_rate :: real
  projected_revenue :: real
  projected_profit :: real
  description :: string

definition generate_scenarios :: "current_values \<Rightarrow> growth_rates \<Rightarrow> scenario list" where
  "generate_scenarios financials rates =
     (let revenue = cv_revenue financials;
          profit = cv_profit financials
      in map (\<lambda>(name, rate).
                let proj_revenue = revenue * (1 + rate / 100);
                    profit_margin = (if revenue > 0 then profit / revenue else 0.1);
                    proj_profit = proj_revenue * profit_margin
                in \<lparr>scenario_name = name, growth_rate = rate,
                    projected_revenue = py_round proj_revenue 2,
                    projected_profit = py_round proj_profit 2,
                    description = get_scenario_description name\<rparr>)
           (growth_items rates))"

subsection \<open>\<open>_project_cash_runway\<close> and the clock\<close>

text \<open>
  \<open>_project_cash_runway\<close> calls \<open>datetime.now()\<close>. The clock reading is an argument of
  the model: a naive datetime, counted in microseconds from 0001-01-01 00:00:00 (the
  resolution and the origin of Python's \<open>datetime\<close>). \<open>timedelta(days=d)\<close> rounds \<open>d\<close>
  days to whole microseconds and raises \<open>OverflowError\<close> beyond 999999999 days; adding
  it to a datetime raises \<open>OverflowError\<close> outside the years 1 to 9999.
  \<open>strftime("%Y-%m-%d")\<close> prints the calendar day of the result, which is one-to-one
  with the day's ordinal number (\<open>date.toordinal()\<close>); the model returns the ordinal.
\<close>

definition US_PER_DAY :: int where
  "US_PER_DAY = 86400000000"

definition MAX_ORDINAL :: int where
  "MAX_ORDINAL = 3652059"

definition timedelta_days :: "real \<Rightarrow> error + int" where
  "timedelta_days d =
     (let us = py_round0 (d * real_of_int US_PER_DAY)
      in if - 999999999 \<le> us div US_PER_DAY \<and> us div US_PER_DAY \<le> 999999999 then Inr us
         else Inl OverflowError)"

definition datetime_add :: "int \<Rightarrow> int \<Rightarrow> error + int" where
  "datetime_add t delta =
     (if 0 \<le> t + delta \<and> t + delta < MAX_ORDINAL * US_PER_DAY then Inr (t + delta)
      else Inl OverflowError)"

definition date_ordinal :: "int \<Rightarrow> int" where
  "date_ordinal t = t div US_PER_DAY + 1"

record runway_projection =
  current_cash :: real
  monthly_burn_rate :: real
  current_runway_months :: real
  runway_scenarios :: "(string \<times> real) list"
  critical_date :: "int option"

datatype cash_runway =
    Positive_cash_flow real string string
  | Runway runway_projection

definition project_cash_runway :: "int \<Rightarrow> current_values \<Rightarrow> error + cash_runway" where
  "project_cash_runway now financials =
     (let cash = cv_cash financials;
          monthly_burn = cv_monthly_burn financials
      in if monthly_burn \<le> 0 then
           Inr (Positive_cash_flow 24 ''positive_cash_flow''
                  ''Company is generating positive cash flow'')
         else
           let current_runway = cash / monthly_burn;
               scenarios =
                 [(''current'', current_runway),
                  (''10_percent_reduction'', cash / (monthly_burn * 0.9)),
                  (''20_percent_reduction'', cash / (monthly_burn * 0.8)),
                  (''10_percent_increase'', cash / (monthly_burn * 1.1))]
           in ebind
                (if current_runway < 12 then
                   ebind (timedelta_days (current_runway * 30)) (\<lambda>delta.
                     ebind (datetime_add now delta) (\<lambda>t. Inr (Some (date_ordinal t))))
                 else Inr None)
                (\<lambda>crit.
                   Inr (Runway
                     \<lparr>current_cash = cash,
                      monthly_burn_rate = py_round monthly_burn 2,
                      current_runway_months = py_round current_runway 1,
                      runway_scenarios = map (\<lambda>(k, v). (k, py_round v 1)) scenarios,
                      critical_date = crit\<rparr>)))"

subsection \<open>\<open>_project_key_metrics\<close> and \<open>generate_forecast\<close>\<close>

record metric_trend =
  trend_metric :: string
  trend_current :: real
  projection_3m :: real
  projection_6m :: real
  projection_12m :: real

definition project_key_metrics :: "current_values \<Rightarrow> growth_rates \<Rightarrow> metric_trend list" where
  "project_key_metrics financials rates =
     (let base_rate = base rates / 100
      in [\<lparr>trend_metric = ''Revenue'', trend_current = cv_revenue financials,
           projection_3m = py_round (cv_revenue financials * (1 + base_rate * 0.25)) 2,
           projection_6m = py_round (cv_revenue financials * (1 + base_rate * 0.5)) 2,
           projection_12m = py_round (cv_revenue financials * (1 + base_rate)) 2\<rparr>,
          \<lparr>trend_metric = ''Profit'', trend_current = cv_profit financials,
           projection_3m = py_round (cv_profit financials * (1 + base_rate * 0.3)) 2,
           projection_6m = py_round (cv_profit financials * (1 + base_rate * 0.6)) 2,
           projection_12m = py_round (cv_profit financials * (1 + base_rate * 1.1)) 2\<rparr>])"

record forecast =
  revenue_forecast :: revenue_forecast
  cash_flow_projection :: cash_flow_projection
  break_even_analysis :: break_even
  growth_scenarios :: "scenario list"
  cash_runway_projection :: cash_runway
  key_metrics_trend :: "metric_trend list"

definition generate_forecast :: "int \<Rightarrow> raw_data \<Rightarrow> string \<Rightarrow> error + forecast" where
  "generate_forecast now raw industry =
     (let financials = extract_current_values raw;
          rates = dget INDUSTRY_GROWTH_RATES industry
                    \<lparr>base = 10, optimistic = 18, pessimistic = 5\<rparr>
      in ebind (project_cash_runway now financials) (\<lambda>runway.
           Inr \<lparr>revenue_forecast = forecast_revenue financials rates,
                cash_flow_projection = forecast_cash_flow financials,
                break_even_analysis = calculate_break_even financials,
                growth_scenarios = generate_scenarios financials rates,
                cash_runway_projection = runway,
                key_metrics_trend = project_key_metrics financials rates\<rparr>))"

subsection \<open>The revenue forecast in the words of the specification\<close>


section \<open>health_score.py: HealthScoreCalculator\<close>

subsection \<open>\<open>_extract_metrics\<close>\<close>

text \<open>
  The fifteen direct fields with their defaults, in the order of the fifteen
  assignments \<open>metrics[k] = float(data.get(k, default))\<close>.
\<close>

definition DIRECT_FIELDS :: "(string \<times> real) list" where
  "DIRECT_FIELDS =
     [(''current_ratio'', 1.5), (''quick_ratio'', 1.0), (''cash_ratio'', 0.5),
      (''gross_margin'', 30), (''net_margin'', 10), (''roe'', 12),
      (''debt_to_equity'', 0.8), (''debt_ratio'', 0.4), (''interest_coverage'', 3.0),
      (''inventory_turnover'', 6), (''receivables_turnover'', 8), (''asset_turnover'', 1.2),
      (''cash_runway_days'', 90), (''working_capital'', 50000),
      (''working_capital_cycle'', 45)]"

fun extract_direct ::
    "(string \<Rightarrow> real option) \<Rightarrow> (string \<times> pyval) list \<Rightarrow> (string \<times> real) list
       \<Rightarrow> (string \<times> real) list \<Rightarrow> error + (string \<times> real) list" where
  "extract_direct str_float data [] metrics = Inr metrics"
| "extract_direct str_float data ((k, dflt) # rest) metrics =
     ebind (py_float str_float (dget data k (PNum dflt)))
       (\<lambda>v. extract_direct str_float data rest (AList.update k v metrics))"

text \<open>The block guarded by \<open>"revenue" in data or "total_revenue" in data\<close>.\<close>

definition extract_margins ::
    "(string \<Rightarrow> real option) \<Rightarrow> (string \<times> pyval) list \<Rightarrow> (string \<times> real) list
       \<Rightarrow> error + (string \<times> real) list" where
  "extract_margins str_float data metrics =
     (if has_key data ''revenue'' \<or> has_key data ''total_revenue'' then
        ebind (py_float str_float
                 (dget data ''revenue'' (dget data ''total_revenue'' (PInt 0)))) (\<lambda>revenue.
        ebind (py_float str_float
                 (dget data ''cost_of_goods_sold'' (dget data ''cogs'' (PNum (revenue * 0.6)))))
          (\<lambda>cogs.
        ebind (py_float str_float
                 (dget data ''net_income'' (dget data ''profit'' (PNum (revenue * 0.1)))))
          (\<lambda>net_income.
          if revenue > 0 then
            ebind (py_div (revenue - cogs) revenue) (\<lambda>g.
            ebind (py_div net_income revenue) (\<lambda>n.
              Inr (AList.update ''net_margin'' (n * 100)
                     (AList.update ''gross_margin'' (g * 100) metrics))))
          else Inr metrics)))
      else Inr metrics)"

text \<open>The block guarded by \<open>"total_assets" in data or "assets" in data\<close>.\<close>

definition extract_balance ::
    "(string \<Rightarrow> real option) \<Rightarrow> (string \<times> pyval) list \<Rightarrow> (string \<times> real) list
       \<Rightarrow> error + (string \<times> real) list" where
  "extract_balance str_float data metrics =
     (if has_key data ''total_assets'' \<or> has_key data ''assets'' then
        ebind (py_float str_float
                 (dget data ''total_assets'' (dget data ''assets'' (PInt 1)))) (\<lambda>total_assets.
        ebind (py_float str_float
                 (dget data ''current_assets'' (PNum (total_assets * 0.4)))) (\<lambda>current_assets.
        ebind (py_float str_float
                 (dget data ''current_liabilities'' (PNum (current_assets * 0.6))))
          (\<lambda>current_liabilities.
        ebind (if current_liabilities > 0 then
                 ebind (py_div current_assets current_liabilities)
                   (\<lambda>q. Inr (AList.update ''current_ratio'' q metrics))
               else Inr metrics) (\<lambda>metrics1.
        ebind (py_float str_float
                 (dget data ''total_liabilities''
                    (dget data ''liabilities'' (PNum (total_assets * 0.4)))))
          (\<lambda>total_liabilities.
          let equity = total_assets - total_liabilities
          in if equity > 0 then
               ebind (py_div total_liabilities equity) (\<lambda>de.
               ebind (py_float str_float
                        (dget data ''net_income'' (dget data ''profit'' (PInt 0))))
                 (\<lambda>net_income.
               ebind (if equity > 0 then
                        ebind (py_div net_income equity) (\<lambda>q. Inr (q * 100))
                      else Inr 0) (\<lambda>roe_v.
                 Inr (AList.update ''roe'' roe_v
                        (AList.update ''debt_to_equity'' de metrics1)))))
             else Inr metrics1)))))
      else Inr metrics)"

text \<open>
  The block guarded by \<open>"cash" in data or "cash_balance" in data\<close>. The monthly
  expenses are divided by 12 before \<open>float()\<close> sees them. The guard tests the monthly
  expenses, the division is by the daily expenses, which can underflow to zero.
\<close>

definition extract_runway ::
    "(string \<Rightarrow> real option) \<Rightarrow> (string \<times> pyval) list \<Rightarrow> (string \<times> real) list
       \<Rightarrow> error + (string \<times> real) list" where
  "extract_runway str_float data metrics =
     (if has_key data ''cash'' \<or> has_key data ''cash_balance'' then
        ebind (py_float str_float
                 (dget data ''cash'' (dget data ''cash_balance'' (PInt 0)))) (\<lambda>cash.
        ebind (py_div_num (dget data ''monthly_expenses'' (dget data ''expenses'' (PInt 0))) 12)
          (\<lambda>monthly_expenses.
          if monthly_expenses > 0 then
            ebind (float_div monthly_expenses 30) (\<lambda>daily.
            ebind (float_div cash daily) (\<lambda>days.
              Inr (AList.update ''cash_runway_days'' days metrics)))
          else Inr metrics))
      else Inr metrics)"

text \<open>
  \<open>_extract_metrics\<close> on a dictionary (the router hands over the result of
  \<open>json.loads\<close> and rejects an empty one before the call).
\<close>

definition extract_metrics ::
    "(string \<Rightarrow> real option) \<Rightarrow> (string \<times> pyval) list \<Rightarrow> error + (string \<times> real) list" where
  "extract_metrics str_float data =
     ebind (extract_direct str_float data DIRECT_FIELDS []) (\<lambda>m0.
     ebind (extract_margins str_float data m0) (\<lambda>m1.
     ebind (extract_balance str_float data m1) (\<lambda>m2.
       extract_runway str_float data m2)))"

subsection \<open>Formatting of numbers in the texts\<close>

text \<open>
  The format specifications \<open>:.0f\<close>, \<open>:.1f\<close> and \<open>:.2f\<close>: the sign, the integer digits
  and \<open>n\<close> decimals of the value rounded to \<open>n\<close> decimals.
\<close>

fun digits :: "nat \<Rightarrow> string" where
  "digits n =
     (if n < 10 then [char_of (48 + n)]
      else digits (n div 10) @ [char_of (48 + n mod 10)])"

definition format_fixed :: "real \<Rightarrow> nat \<Rightarrow> string" where
  "format_fixed x n =
     (let k = nat \<bar>py_round0 (x * 10 ^ n)\<bar>;
          frac = digits (k mod 10 ^ n)
      in (if x < 0 then ''-'' else '''') @ digits (k div 10 ^ n)
         @ (if n = 0 then '''' else ''.'' @ replicate (n - length frac) (CHR ''0'') @ frac))"

subsection \<open>\<open>_generate_summary\<close>, \<open>_identify_risk_factors\<close>, \<open>calculate_comprehensive_score\<close>\<close>

definition generate_summary :: "score_result \<Rightarrow> string" where
  "generate_summary r =
     (let score = overall_score r; g = grade r
      in if score \<ge> 75 then
           ''Your business demonstrates strong financial health with a score of ''
           @ format_fixed score 0 @ '' (Grade '' @ g @ ''). ''
           @ ''Key strengths include solid liquidity and healthy profitability margins. ''
           @ ''Continue maintaining current financial practices and consider strategic growth investments.''
         else if score \<ge> 55 then
           ''Your business shows moderate financial health with a score of ''
           @ format_fixed score 0 @ '' (Grade '' @ g @ ''). ''
           @ ''While core fundamentals are stable, there are areas that need attention. ''
           @ ''Focus on improving cash flow management and reducing debt exposure.''
         else if score \<ge> 35 then
           ''Your business is facing financial challenges with a score of ''
           @ format_fixed score 0 @ '' (Grade '' @ g @ ''). ''
           @ ''Immediate attention is required to improve liquidity and profitability. ''
           @ ''Consider restructuring costs and exploring additional revenue streams.''
         else
           ''Your business is in critical financial condition with a score of ''
           @ format_fixed score 0 @ '' (Grade '' @ g @ ''). ''
           @ ''Urgent intervention is needed to address cash flow and solvency issues. ''
           @ ''Seek professional financial advice and explore emergency funding options.'')"

record risk_factor =
  risk_name :: string
  severity :: string
  risk_description :: string
  indicator :: string

definition identify_risk_factors :: "(string \<times> real) list \<Rightarrow> risk_factor list" where
  "identify_risk_factors metrics =
     (if dget metrics ''current_ratio'' 2 < 1.0 then
        [\<lparr>risk_name = ''Low Liquidity'',
          severity = (if dget metrics ''current_ratio'' 2 < 0.8 then ''high'' else ''medium''),
          risk_description = ''Current ratio is below 1.0, indicating potential difficulty meeting short-term obligations.'',
          indicator = ''Current Ratio: '' @ format_fixed (dget metrics ''current_ratio'' 0) 2\<rparr>]
      else [])
     @ (if dget metrics ''cash_runway_days'' 90 < 60 then
          [\<lparr>risk_name = ''Low Cash Runway'',
            severity = (if dget metrics ''cash_runway_days'' 90 < 30 then ''critical'' else ''high''),
            risk_description = ''Cash reserves may not last beyond 2 months at current burn rate.'',
            indicator = ''Cash Runway: '' @ format_fixed (dget metrics ''cash_runway_days'' 0) 0
                        @ '' days''\<rparr>]
        else [])
     @ (if dget metrics ''net_margin'' 10 < 5 then
          [\<lparr>risk_name = ''Low Profit Margins'',
            severity = (if dget metrics ''net_margin'' 10 < 2 then ''high'' else ''medium''),
            risk_description = ''Net profit margin is thin, leaving little room for unexpected expenses.'',
            indicator = ''Net Margin: '' @ format_fixed (dget metrics ''net_margin'' 0) 1 @ ''%''\<rparr>]
        else [])
     @ (if dget metrics ''debt_to_equity'' 1 > 2 then
          [\<lparr>risk_name = ''High Debt Levels'',
            severity = (if dget metrics ''debt_to_equity'' 1 > 3 then ''high'' else ''medium''),
            risk_description = ''Debt-to-equity ratio is elevated, increasing financial risk.'',
            indicator = ''Debt/Equity: '' @ format_fixed (dget metrics ''debt_to_equity'' 0) 2\<rparr>]
        else [])
     @ (if dget metrics ''receivables_turnover'' 8 < 4 then
          [\<lparr>risk_name = ''Slow Collections'',
            severity = ''medium'',
            risk_description = ''Receivables turnover is low, indicating slow collection of payments.'',
            indicator = ''Receivables Turnover: ''
                        @ format_fixed (dget metrics ''receivables_turnover'' 0) 1 @ ''x''\<rparr>]
        else [])"

record comprehensive_score =
  score :: score_result
  metrics_used :: "(string \<times> real) list"
  ai_summary :: string
  risk_factors :: "risk_factor list"

definition calculate_comprehensive_score ::
    "(string \<Rightarrow> real option) \<Rightarrow> string \<Rightarrow> (string \<times> pyval) list
       \<Rightarrow> error + comprehensive_score" where
  "calculate_comprehensive_score str_float industry financial_data =
     ebind (extract_metrics str_float financial_data) (\<lambda>metrics.
       let r = calculate_health_score metrics industry
       in Inr \<lparr>score = r, metrics_used = metrics, ai_summary = generate_summary r,
               risk_factors = identify_risk_factors metrics\<rparr>)"

section \<open>routers/analysis.py: the assessment pipeline of \<open>get_health_score\<close>\<close>

text \<open>
  The three service calls the router makes on the parsed data and the industry of the
  company: the score, the benchmark on the metrics of the score, the forecast.
\<close>

record assessment =
  score_part :: comprehensive_score
  benchmark_part :: benchmark_result
  forecast_part :: forecast

definition compute_health_assessment ::
    "int \<Rightarrow> (string \<Rightarrow> real option) \<Rightarrow> raw_data \<Rightarrow> string \<Rightarrow> error + assessment" where
  "compute_health_assessment now str_float raw industry =
     ebind (calculate_comprehensive_score str_float industry (raw_fields raw)) (\<lambda>sc.
     ebind (compare_to_industry (metrics_used sc) industry) (\<lambda>bm.
     ebind (generate_forecast now raw industry) (\<lambda>fc.
       Inr \<lparr>score_part = sc, benchmark_part = bm, forecast_part = fc\<rparr>)))"

section \<open>financial_calculator.py: FinancialCalculator\<close>

text \<open>
  The calculator computes on whatever numbers the summary block holds: integers stay
  integers under \<open>+\<close> and \<open>-\<close>, and become floats when they meet a float or are
  divided. The totals of the columns are floats (the parser writes \<open>float(...)\<close>).
\<close>

datatype pynum = PyInt int | PyFloat real

record calc_data =
  calc_summary :: "(string \<times> pynum) list option"
  calc_financial_data :: "(string \<times> col_info) list option"

definition num_val :: "pynum \<Rightarrow> real" where
  "num_val a = (case a of PyInt n \<Rightarrow> real_of_int n | PyFloat x \<Rightarrow> x)"

definition as_float :: "pynum \<Rightarrow> error + real" where
  "as_float a = (case a of PyInt n \<Rightarrow> int_to_float n | PyFloat x \<Rightarrow> Inr x)"

definition py_add :: "pynum \<Rightarrow> pynum \<Rightarrow> error + pynum" where
  "py_add a b =
     (case (a, b) of
        (PyInt m, PyInt n) \<Rightarrow> Inr (PyInt (m + n))
      | _ \<Rightarrow> ebind (as_float a) (\<lambda>x. ebind (as_float b) (\<lambda>y. Inr (PyFloat (x + y)))))"

definition py_sub :: "pynum \<Rightarrow> pynum \<Rightarrow> error + pynum" where
  "py_sub a b =
     (case (a, b) of
        (PyInt m, PyInt n) \<Rightarrow> Inr (PyInt (m - n))
      | _ \<Rightarrow> ebind (as_float a) (\<lambda>x. ebind (as_float b) (\<lambda>y. Inr (PyFloat (x - y)))))"

definition py_mul :: "pynum \<Rightarrow> pynum \<Rightarrow> error + pynum" where
  "py_mul a b =
     (case (a, b) of
        (PyInt m, PyInt n) \<Rightarrow> Inr (PyInt (m * n))
      | _ \<Rightarrow> ebind (as_float a) (\<lambda>x. ebind (as_float b) (\<lambda>y. Inr (PyFloat (flush (x * y))))))"

text \<open>True division \<open>a / b\<close>; the result is a float also for two integers.\<close>

definition py_truediv :: "pynum \<Rightarrow> pynum \<Rightarrow> error + pynum" where
  "py_truediv a b =
     (case (a, b) of
        (PyInt m, PyInt n) \<Rightarrow>
          (if n = 0 then Inl ZeroDivisionError
           else if \<bar>real_of_int m / real_of_int n\<bar> < FLOAT_OVERFLOW
             then Inr (PyFloat (flush (real_of_int m / real_of_int n)))
           else Inl OverflowError)
      | _ \<Rightarrow> ebind (as_float a) (\<lambda>x. ebind (as_float b) (\<lambda>y.
               ebind (float_div x y) (\<lambda>q. Inr (PyFloat q)))))"

text \<open>
  \<open>round(x)\<close> with one argument gives an integer; on a float that has overflowed to an
  infinity it raises \<open>OverflowError\<close>.
\<close>

definition py_round_int :: "pynum \<Rightarrow> error + pynum" where
  "py_round_int a =
     (case a of
        PyInt n \<Rightarrow> Inr (PyInt n)
      | PyFloat x \<Rightarrow>
          (if \<bar>x\<bar> < FLOAT_OVERFLOW then Inr (PyInt (py_round0 x)) else Inl OverflowError))"

text \<open>
  \<open>_extract_financials\<close> builds a dictionary whose keys depend on the input; later
  code asks whether a key is present and reads absent keys with a default. The
  dictionary is an association list. \<open>add_to k amount fin\<close> is the statement
  \<open>financials[k] = financials.get(k, 0) + amount\<close>.
\<close>

definition add_to ::
    "string \<Rightarrow> pynum \<Rightarrow> (string \<times> pynum) list \<Rightarrow> error + (string \<times> pynum) list" where
  "add_to k amount fin =
     ebind (py_add (dget fin k (PyInt 0)) amount) (\<lambda>v. Inr (AList.update k v fin))"

fun financials_columns ::
    "(string \<times> col_info) list \<Rightarrow> (string \<times> pynum) list
       \<Rightarrow> error + (string \<times> pynum) list" where
  "financials_columns [] fin = Inr fin"
| "financials_columns ((col, info) # rest) fin =
     (let category = (case info_category info of Some c \<Rightarrow> c | None \<Rightarrow> []);
          total = (case info_total info of Some t \<Rightarrow> PyFloat t | None \<Rightarrow> PyInt 0)
      in ebind
           (if category = ''revenue'' then add_to ''revenue'' total fin
            else if category = ''expense'' then add_to ''total_expenses'' total fin
            else if category = ''profit'' then Inr (AList.update ''net_profit'' total fin)
            else if category = ''asset'' then
              ebind (add_to ''total_assets'' total fin) (\<lambda>fin1.
                let col_lower = py_lower col
                in if contains ''cash'' col_lower \<or> contains ''bank'' col_lower then
                     add_to ''cash'' total fin1
                   else if contains ''inventory'' col_lower then
                     add_to ''inventory'' total fin1
                   else if contains ''receivable'' col_lower then
                     add_to ''accounts_receivable'' total fin1
                   else Inr fin1)
            else if category = ''liability'' then
              ebind (add_to ''total_liabilities'' total fin) (\<lambda>fin1.
                if contains ''payable'' (py_lower col) then
                  add_to ''accounts_payable'' total fin1
                else Inr fin1)
            else Inr fin)
           (financials_columns rest))"

text \<open>The derived values, set when both revenue and expenses are known.\<close>

definition derive_profit :: "(string \<times> pynum) list \<Rightarrow> error + (string \<times> pynum) list" where
  "derive_profit fin =
     (if has_key fin ''revenue'' \<and> has_key fin ''total_expenses'' then
        ebind (if \<not> has_key fin ''net_profit'' then
                 ebind (py_sub (dget fin ''revenue'' (PyInt 0))
                          (dget fin ''total_expenses'' (PyInt 0)))
                   (\<lambda>v. Inr (AList.update ''net_profit'' v fin))
               else Inr fin) (\<lambda>a.
        ebind (py_mul (dget a ''revenue'' (PyInt 0)) (PyFloat 0.35)) (\<lambda>gross.
        let b = AList.update ''gross_profit'' gross a
        in ebind (py_mul (dget b ''net_profit'' (PyInt 0)) (PyFloat 1.2)) (\<lambda>op.
             Inr (AList.update ''operating_income'' op b))))
      else Inr fin)"

definition extract_financials :: "calc_data \<Rightarrow> error + (string \<times> pynum) list" where
  "extract_financials raw =
     (let fin1 = (case calc_summary raw of
                    None \<Rightarrow> []
                  | Some s \<Rightarrow>
                      [(''revenue'', dget s ''total_revenue'' (PyInt 0)),
                       (''total_expenses'', dget s ''total_expenses'' (PyInt 0)),
                       (''net_profit'', dget s ''total_profit'' (PyInt 0)),
                       (''total_assets'', dget s ''total_assets'' (PyInt 0)),
                       (''total_liabilities'', dget s ''total_liabilities'' (PyInt 0))])
      in ebind (case calc_financial_data raw of
                  None \<Rightarrow> Inr fin1
                | Some cols \<Rightarrow> financials_columns cols fin1) (\<lambda>fin2.
         ebind (derive_profit fin2) (\<lambda>fin3.
         ebind (py_add (dget fin3 ''cash'' (PyInt 0))
                  (dget fin3 ''accounts_receivable'' (PyInt 0))) (\<lambda>s1.
         ebind (py_add s1 (dget fin3 ''inventory'' (PyInt 0))) (\<lambda>current_assets.
         let fin4 = AList.update ''current_assets'' current_assets fin3
         in ebind (py_mul (dget fin4 ''total_liabilities'' (PyInt 0)) (PyFloat 0.3)) (\<lambda>p.
            ebind (py_add (dget fin4 ''accounts_payable'' (PyInt 0)) p) (\<lambda>current_liabilities.
            let fin5 = AList.update ''current_liabilities'' current_liabilities fin4
            in ebind (py_sub (dget fin5 ''total_assets'' (PyInt 0))
                        (dget fin5 ''total_liabilities'' (PyInt 0))) (\<lambda>equity.
               let fin6 = AList.update ''equity'' equity fin5;
                   fin7 = AList.update ''total_debt''
                            (dget fin6 ''total_liabilities'' (PyInt 0)) fin6
               in ebind (py_mul (dget fin7 ''total_expenses'' (PyInt 0)) (PyFloat 0.7))
                    (\<lambda>cogs. Inr (AList.update ''cost_of_goods_sold'' cogs fin7))))))))))"

definition safe_divide :: "pynum \<Rightarrow> pynum \<Rightarrow> error + pynum" where
  "safe_divide numerator denominator =
     (if num_val denominator = 0 then Inr (PyFloat 0.0)
      else py_truediv numerator denominator)"

definition calculate_cash_runway :: "(string \<times> pynum) list \<Rightarrow> error + pynum" where
  "calculate_cash_runway fin =
     (let cash = dget fin ''cash'' (PyInt 0)
      in ebind (py_truediv (dget fin ''total_expenses'' (PyInt 0)) (PyInt 12))
           (\<lambda>monthly_expenses.
           if num_val monthly_expenses \<le> 0 then Inr (PyInt 365)
           else
             ebind (py_truediv monthly_expenses (PyInt 30)) (\<lambda>daily_burn.
               if num_val daily_burn > 0 then
                 ebind (py_truediv cash daily_burn) py_round_int
               else Inr (PyInt 365))))"

definition calculate_working_capital_cycle :: "(string \<times> pynum) list \<Rightarrow> error + pynum" where
  "calculate_working_capital_cycle fin =
     (let inventory = dget fin ''inventory'' (PyInt 0);
          cogs = dget fin ''cost_of_goods_sold'' (PyInt 1)
      in ebind (if num_val cogs > 0 then
                  ebind (py_truediv inventory cogs) (\<lambda>q. py_mul q (PyInt 365))
                else Inr (PyInt 0)) (\<lambda>dio.
         let receivables = dget fin ''accounts_receivable'' (PyInt 0);
             revenue = dget fin ''revenue'' (PyInt 1)
         in ebind (if num_val revenue > 0 then
                     ebind (py_truediv receivables revenue) (\<lambda>q. py_mul q (PyInt 365))
                   else Inr (PyInt 0)) (\<lambda>dso.
            let payables = dget fin ''accounts_payable'' (PyInt 0)
            in ebind (if num_val cogs > 0 then
                        ebind (py_truediv payables cogs) (\<lambda>q. py_mul q (PyInt 365))
                      else Inr (PyInt 0)) (\<lambda>dpo.
                 ebind (py_add dio dso) (\<lambda>s.
                 ebind (py_sub s dpo) py_round_int)))))"

text \<open>
  The entries of a dictionary display are evaluated in order, and the first one that
  raises ends the evaluation.
\<close>

fun collect :: "(string \<times> (error + pynum)) list \<Rightarrow> error + (string \<times> pynum) list" where
  "collect [] = Inr []"
| "collect ((k, c) # rest) =
     ebind c (\<lambda>v. ebind (collect rest) (\<lambda>vs. Inr ((k, v) # vs)))"

definition times100 :: "error + pynum \<Rightarrow> error + pynum" where
  "times100 c = ebind c (\<lambda>q. py_mul q (PyInt 100))"

record all_metrics =
  ratios :: "(string \<times> pynum) list"
  revenue_growth :: "pynum option"
  profit_growth :: "pynum option"
  raw_values :: "(string \<times> pynum) list"

text \<open>The dictionary display of \<open>calculate_all_metrics\<close>, on the extracted financials.\<close>

definition metrics_of :: "(string \<times> pynum) list \<Rightarrow> error + all_metrics" where
  "metrics_of fin =
     ebind (collect
       [(''current_ratio'',
           safe_divide (dget fin ''current_assets'' (PyInt 0))
             (dget fin ''current_liabilities'' (PyInt 1))),
        (''quick_ratio'',
           ebind (py_sub (dget fin ''current_assets'' (PyInt 0)) (dget fin ''inventory'' (PyInt 0)))
             (\<lambda>n. safe_divide n (dget fin ''current_liabilities'' (PyInt 1)))),
        (''cash_ratio'',
           safe_divide (dget fin ''cash'' (PyInt 0)) (dget fin ''current_liabilities'' (PyInt 1))),
        (''gross_margin'',
           times100 (safe_divide (dget fin ''gross_profit'' (PyInt 0))
                       (dget fin ''revenue'' (PyInt 1)))),
        (''net_margin'',
           times100 (safe_divide (dget fin ''net_profit'' (PyInt 0))
                       (dget fin ''revenue'' (PyInt 1)))),
        (''operating_margin'',
           times100 (safe_divide (dget fin ''operating_income'' (PyInt 0))
                       (dget fin ''revenue'' (PyInt 1)))),
        (''roe'',
           times100 (safe_divide (dget fin ''net_profit'' (PyInt 0))
                       (dget fin ''equity'' (PyInt 1)))),
        (''roa'',
           times100 (safe_divide (dget fin ''net_profit'' (PyInt 0))
                       (dget fin ''total_assets'' (PyInt 1)))),
        (''debt_to_equity'',
           safe_divide (dget fin ''total_debt'' (PyInt 0)) (dget fin ''equity'' (PyInt 1))),
        (''debt_ratio'',
           safe_divide (dget fin ''total_debt'' (PyInt 0)) (dget fin ''total_assets'' (PyInt 1))),
        (''interest_coverage'',
           safe_divide (dget fin ''operating_income'' (PyInt 0))
             (dget fin ''interest_expense'' (PyInt 1))),
        (''inventory_turnover'',
           safe_divide (dget fin ''cost_of_goods_sold'' (PyInt 0))
             (dget fin ''inventory'' (PyInt 1))),
        (''receivables_turnover'',
           safe_divide (dget fin ''revenue'' (PyInt 0))
             (dget fin ''accounts_receivable'' (PyInt 1))),
        (''payables_turnover'',
           safe_divide (dget fin ''cost_of_goods_sold'' (PyInt 0))
             (dget fin ''accounts_payable'' (PyInt 1))),
        (''asset_turnover'',
           safe_divide (dget fin ''revenue'' (PyInt 0)) (dget fin ''total_assets'' (PyInt 1))),
        (''cash_runway_days'', calculate_cash_runway fin),
        (''working_capital'',
           py_sub (dget fin ''current_assets'' (PyInt 0))
             (dget fin ''current_liabilities'' (PyInt 0))),
        (''working_capital_cycle'', calculate_working_capital_cycle fin)])
       (\<lambda>rs.
          Inr \<lparr>ratios = rs,
               revenue_growth = map_of fin ''revenue_growth'',
               profit_growth = map_of fin ''profit_growth'',
               raw_values =
                 [(''revenue'', dget fin ''revenue'' (PyInt 0)),
                  (''expenses'', dget fin ''total_expenses'' (PyInt 0)),
                  (''net_profit'', dget fin ''net_profit'' (PyInt 0)),
                  (''cash'', dget fin ''cash'' (PyInt 0)),
                  (''total_assets'', dget fin ''total_assets'' (PyInt 0)),
                  (''total_liabilities'', dget fin ''total_liabilities'' (PyInt 0))]\<rparr>)"

definition calculate_all_metrics :: "calc_data \<Rightarrow> error + all_metrics" where
  "calculate_all_metrics raw = ebind (extract_financials raw) metrics_of"

section \<open>Verified properties\<close>

subsection \<open>Grade and risk level\<close>

text \<open>
  Claim C8. The grade and the risk level are decided by the thresholds alone: a score
  gets \<open>A+\<close> exactly when it is at least 90, \<open>A\<close> exactly on \<open>[85, 90)\<close>, and so on down
  the eleven grades to \<open>F\<close> exactly below 40; the risk level is \<open>Low\<close> exactly from 75,
  \<open>Medium\<close> exactly on \<open>[55, 75)\<close>, \<open>High\<close> exactly on \<open>[35, 55)\<close> and \<open>Critical\<close>
  exactly below 35.
\<close>

theorem grade_and_risk_thresholds:
  "((calculate_grade s = ''A+'') = (90 \<le> s))
   \<and> ((calculate_grade s = ''A'') = (85 \<le> s \<and> s < 90))
   \<and> ((calculate_grade s = ''A-'') = (80 \<le> s \<and> s < 85))
   \<and> ((calculate_grade s = ''B+'') = (75 \<le> s \<and> s < 80))
   \<and> ((calculate_grade s = ''B'') = (70 \<le> s \<and> s < 75))
   \<and> ((calculate_grade s = ''B-'') = (65 \<le> s \<and> s < 70))
   \<and> ((calculate_grade s = ''C+'') = (60 \<le> s \<and> s < 65))
   \<and> ((calculate_grade s = ''C'') = (55 \<le> s \<and> s < 60))
   \<and> ((calculate_grade s = ''C-'') = (50 \<le> s \<and> s < 55))
   \<and> ((calculate_grade s = ''D'') = (40 \<le> s \<and> s < 50))
   \<and> ((calculate_grade s = ''F'') = (s < 40))
   \<and> ((calculate_risk_level s = ''Low'') = (75 \<le> s))
   \<and> ((calculate_risk_level s = ''Medium'') = (55 \<le> s \<and> s < 75))
   \<and> ((calculate_risk_level s = ''High'') = (35 \<le> s \<and> s < 55))
   \<and> ((calculate_risk_level s = ''Critical'') = (s < 35))"
  unfolding calculate_grade_def calculate_risk_level_def by auto

text \<open>The boundary values named by the specification: 90 and 89.99, 75 and 74.99, 55, 35.\<close>

theorem grade_and_risk_thresholds_witness:
  "calculate_grade 90 = ''A+'' \<and> calculate_grade 89.99 = ''A''
   \<and> calculate_grade 40 = ''D'' \<and> calculate_grade 39.99 = ''F''
   \<and> calculate_risk_level 75 = ''Low'' \<and> calculate_risk_level 74.99 = ''Medium''
   \<and> calculate_risk_level 55 = ''Medium'' \<and> calculate_risk_level 54.99 = ''High''
   \<and> calculate_risk_level 35 = ''High'' \<and> calculate_risk_level 34.99 = ''Critical''"
  using grade_and_risk_thresholds [of 90] grade_and_risk_thresholds [of "89.99"]
    grade_and_risk_thresholds [of 40] grade_and_risk_thresholds [of "39.99"]
    grade_and_risk_thresholds [of 75] grade_and_risk_thresholds [of "74.99"]
    grade_and_risk_thresholds [of 55] grade_and_risk_thresholds [of "54.99"]
    grade_and_risk_thresholds [of 35] grade_and_risk_thresholds [of "34.99"]
  by simp

subsection \<open>Industry weights\<close>

text \<open>
  Claim C9. The weight table has the six industries, each of its weight sets sums to 1,
  the default set sums to 1, and so does the set selected for any industry tag, known
  or not.
\<close>

theorem weights_sum_to_one:
  "map fst INDUSTRY_WEIGHTS =
     [''Manufacturing'', ''Retail'', ''Agriculture'', ''Services'', ''Logistics'', ''E-commerce'']
   \<and> (\<forall>w \<in> snd ` set INDUSTRY_WEIGHTS. weight_sum w = 1)
   \<and> weight_sum DEFAULT_WEIGHTS = 1
   \<and> weight_sum (weights_for industry) = 1"
  unfolding weight_sum_def weights_for_def dget_def INDUSTRY_WEIGHTS_def DEFAULT_WEIGHTS_def
  by simp

text \<open>A tag of the table and a tag outside it.\<close>

theorem weights_sum_to_one_witness:
  "weights_for ''Retail'' \<in> snd ` set INDUSTRY_WEIGHTS
   \<and> weight_sum (weights_for ''Retail'') = 1
   \<and> weights_for ''Mining'' = DEFAULT_WEIGHTS
   \<and> weight_sum (weights_for ''Mining'') = 1"
proof -
  have a: "weights_for ''Retail'' \<in> snd ` set INDUSTRY_WEIGHTS"
    unfolding weights_for_def dget_def INDUSTRY_WEIGHTS_def by simp
  have b: "weights_for ''Mining'' = DEFAULT_WEIGHTS"
    unfolding weights_for_def dget_def INDUSTRY_WEIGHTS_def by simp
  show ?thesis
    using a b weights_sum_to_one [of "''Retail''"] weights_sum_to_one [of "''Mining''"]
    by blast
qed

subsection \<open>Turnovers of zero in the efficiency score\<close>

text \<open>
  Claim C10 as written lets every strictly positive turnover \<open>t\<close> score \<open>t * 10\<close>
  (respectively \<open>t * 7.5\<close>). That is the lowest band only: an inventory turnover of 3
  scores 33.3 and a receivables turnover of 5 scores 40.
\<close>

theorem zero_turnover_counterexample:
  "(0::real) < 3 \<and> it_score 3 \<noteq> 3 * 10 \<and> (0::real) < 5 \<and> rt_score 5 \<noteq> 5 * 7.5"
  unfolding it_score_def rt_score_def by simp

text \<open>
  Claim C10, amended. A turnover of exactly 0 scores the neutral 50 on both curves; a
  turnover strictly between 0 and 2 (inventory), respectively 0 and 4 (receivables),
  scores \<open>t * 10\<close>, respectively \<open>t * 7.5\<close>; so just above 0 both scores are as close to
  0 as one likes.
\<close>

theorem zero_turnover_neutral:
  "it_score 0 = 50 \<and> rt_score 0 = 50
   \<and> (0 < t \<and> t < 2 \<longrightarrow> it_score t = t * 10)
   \<and> (0 < t \<and> t < 4 \<longrightarrow> rt_score t = t * 7.5)
   \<and> (0 < e \<longrightarrow> (\<exists>d > 0. \<forall>u. 0 < u \<and> u < d \<longrightarrow> \<bar>it_score u\<bar> < e \<and> \<bar>rt_score u\<bar> < e))"
proof -
  have lim: "\<exists>d > 0. \<forall>u. 0 < u \<and> u < d \<longrightarrow> \<bar>it_score u\<bar> < e \<and> \<bar>rt_score u\<bar> < e" if "0 < e"
  proof (intro exI conjI allI impI)
    show "0 < min 2 (e / 10)" using that by simp
  next
    fix u assume "0 < u \<and> u < min 2 (e / 10)"
    then have u: "0 < u" "u < 2" "u * 10 < e" by (auto simp: field_simps)
    then show "\<bar>it_score u\<bar> < e" unfolding it_score_def by simp
  next
    fix u assume "0 < u \<and> u < min 2 (e / 10)"
    then have u: "0 < u" "u < 2" "u * 10 < e" by (auto simp: field_simps)
    then show "\<bar>rt_score u\<bar> < e" unfolding rt_score_def by simp
  qed
  show ?thesis
    using lim unfolding it_score_def rt_score_def by auto
qed

text \<open>A turnover of 1, and the tolerance 1.\<close>

theorem zero_turnover_neutral_witness:
  "it_score 0 = 50 \<and> rt_score 0 = 50 \<and> (0::real) < 1 \<and> (1::real) < 2 \<and> it_score 1 = 10
   \<and> rt_score 1 = 7.5
   \<and> (\<exists>d > 0. \<forall>u. 0 < u \<and> u < d \<longrightarrow> \<bar>it_score u\<bar> < 1 \<and> \<bar>rt_score u\<bar> < 1)"
  using zero_turnover_neutral [of 1 1] by simp

subsection \<open>The scoring curves\<close>

text \<open>
  A function on the reals that changes by at most \<open>K\<close> times the change of its argument
  is continuous everywhere, in particular at the breakpoints of an \<open>if\<close> chain.
\<close>

lemma lipschitz_isCont:
  fixes f :: "real \<Rightarrow> real"
  assumes K: "0 < K" and lip: "\<And>x y. \<bar>f x - f y\<bar> \<le> K * \<bar>x - y\<bar>"
  shows "isCont f a"
  unfolding isCont_def LIM_def dist_real_def
proof (intro allI impI)
  fix r :: real assume r: "0 < r"
  show "\<exists>s>0. \<forall>x. x \<noteq> a \<and> \<bar>x - a\<bar> < s \<longrightarrow> \<bar>f x - f a\<bar> < r"
  proof (intro exI conjI allI impI)
    show "0 < r / K" using r K by simp
  next
    fix x assume "x \<noteq> a \<and> \<bar>x - a\<bar> < r / K"
    then have "K * \<bar>x - a\<bar> < r" using K by (simp add: field_simps)
    with lip [of x a] show "\<bar>f x - f a\<bar> < r" by linarith
  qed
qed

lemma liq_cr_lip: "\<bar>liq_cr_score x - liq_cr_score y\<bar> \<le> 60 * \<bar>x - y\<bar>"
  unfolding liq_cr_score_def by (auto split: if_splits simp: abs_if)

lemma liq_qr_lip: "\<bar>liq_qr_score x - liq_qr_score y\<bar> \<le> 80 * \<bar>x - y\<bar>"
  unfolding liq_qr_score_def by (auto split: if_splits simp: abs_if)

lemma gm_lip: "\<bar>gm_score x - gm_score y\<bar> \<le> 2 * \<bar>x - y\<bar>"
  unfolding gm_score_def by (auto split: if_splits simp: abs_if)
lemma nm_lip: "\<bar>nm_score x - nm_score y\<bar> \<le> 6 * \<bar>x - y\<bar>"
  unfolding nm_score_def by (auto split: if_splits simp: abs_if)
lemma roe_lip: "\<bar>roe_score x - roe_score y\<bar> \<le> 4 * \<bar>x - y\<bar>"
  unfolding roe_score_def by (auto split: if_splits simp: abs_if)
lemma de_lip: "\<bar>de_score x - de_score y\<bar> \<le> 60 * \<bar>x - y\<bar>"
  unfolding de_score_def by (auto split: if_splits simp: abs_if)
lemma dr_lip: "\<bar>dr_score x - dr_score y\<bar> \<le> 200 * \<bar>x - y\<bar>"
  unfolding dr_score_def by (auto split: if_splits simp: abs_if)
lemma at_lip: "\<bar>at_score x - at_score y\<bar> \<le> 60 * \<bar>x - y\<bar>"
  unfolding at_score_def by (auto split: if_splits simp: abs_if)
lemma wc_lip: "\<bar>wc_score x - wc_score y\<bar> \<le> 1 * \<bar>x - y\<bar>"
  unfolding wc_score_def by (auto split: if_splits simp: abs_if)

lemma liq_cr_mono: "x \<le> y \<Longrightarrow> liq_cr_score x \<le> liq_cr_score y"
  unfolding liq_cr_score_def by (auto split: if_splits)
lemma liq_qr_mono: "x \<le> y \<Longrightarrow> liq_qr_score x \<le> liq_qr_score y"
  unfolding liq_qr_score_def by (auto split: if_splits)
lemma liq_cash_mono: "x \<le> y \<Longrightarrow> liq_cash_score x \<le> liq_cash_score y"
  unfolding liq_cash_score_def by (auto split: if_splits)
lemma gm_mono: "x \<le> y \<Longrightarrow> gm_score x \<le> gm_score y"
  unfolding gm_score_def by (auto split: if_splits)
lemma nm_mono: "x \<le> y \<Longrightarrow> nm_score x \<le> nm_score y"
  unfolding nm_score_def by (auto split: if_splits)
lemma roe_mono: "x \<le> y \<Longrightarrow> roe_score x \<le> roe_score y"
  unfolding roe_score_def by (auto split: if_splits)
lemma de_mono: "x \<le> y \<Longrightarrow> de_score y \<le> de_score x"
  unfolding de_score_def by (auto split: if_splits)
lemma dr_mono: "x \<le> y \<Longrightarrow> dr_score y \<le> dr_score x"
  unfolding dr_score_def by (auto split: if_splits)
lemma it_mono: "0 < x \<Longrightarrow> x \<le> y \<Longrightarrow> it_score x \<le> it_score y"
  unfolding it_score_def by (auto split: if_splits simp: field_simps)
lemma rt_mono: "0 < x \<Longrightarrow> x \<le> y \<Longrightarrow> rt_score x \<le> rt_score y"
  unfolding rt_score_def by (auto split: if_splits simp: field_simps)
lemma at_mono: "x \<le> y \<Longrightarrow> at_score x \<le> at_score y"
  unfolding at_score_def by (auto split: if_splits)
lemma cf_cr_mono: "x \<le> y \<Longrightarrow> cf_cr_score x \<le> cf_cr_score y"
  unfolding cf_cr_score_def by (auto split: if_splits simp: field_simps)
lemma wc_mono: "x \<le> y \<Longrightarrow> wc_score x \<le> wc_score y"
  unfolding wc_score_def by (auto split: if_splits)

lemma liq_range: "0 \<le> x \<Longrightarrow>
   0 \<le> liq_cr_score x \<and> liq_cr_score x \<le> 100 \<and> 0 \<le> liq_qr_score x \<and> liq_qr_score x \<le> 100
   \<and> 0 \<le> liq_cash_score x \<and> liq_cash_score x \<le> 100"
  unfolding liq_cr_score_def liq_qr_score_def liq_cash_score_def by simp
lemma prof_range: 
   "0 \<le> gm_score x \<and> gm_score x \<le> 100 \<and> 0 \<le> nm_score x \<and> nm_score x \<le> 100
   \<and> 0 \<le> roe_score x \<and> roe_score x \<le> 100"
  unfolding gm_score_def nm_score_def roe_score_def by simp
lemma solv_range: 
   "0 \<le> de_score x \<and> de_score x \<le> 100 \<and> 0 \<le> dr_score x \<and> dr_score x \<le> 100
   \<and> 0 \<le> ic_score x \<and> ic_score x \<le> 100"
  unfolding de_score_def dr_score_def ic_score_def by simp
lemma eff_range: 
   "0 \<le> it_score x \<and> it_score x \<le> 100 \<and> 0 \<le> rt_score x \<and> rt_score x \<le> 100
   \<and> 0 \<le> at_score x \<and> at_score x \<le> 100"
  unfolding it_score_def rt_score_def at_score_def by simp
lemma cf_range: 
   "(0 \<le> x \<longrightarrow> 0 \<le> cf_cr_score x \<and> cf_cr_score x \<le> 100) \<and> 0 \<le> wc_score x \<and> wc_score x \<le> 100
   \<and> 0 \<le> wcc_score x \<and> wcc_score x \<le> 100"
  unfolding cf_cr_score_def wc_score_def wcc_score_def by (auto simp: field_simps)

text \<open>
  Two curves dip at a breakpoint, where the slope written in the source overshoots the
  value the next band starts from: interest coverage just below 3 scores more than at 3
  (the band \<open>[1.5, 3)\<close> ends at \<open>70.5\<close>, the next starts at 70), and a working-capital
  cycle just above 90 scores more than at 90 (the band \<open>(90, 120]\<close> starts at \<open>40.1\<close>,
  the previous ends at 40).
\<close>

lemma ic_score_dip: "(2.99::real) \<le> 3 \<and> ic_score 3 < ic_score 2.99"
  unfolding ic_score_def by simp

lemma wcc_score_rise: "(90::real) \<le> 90.1 \<and> wcc_score 90 < wcc_score 90.1"
  unfolding wcc_score_def by simp

text \<open>
  Claim C2 as written asks every higher-is-better curve to be non-decreasing on the
  non-negative values. The turnover curves give the value 0 the neutral score 50 (the
  source: "No inventory might be OK (services)") and a turnover of 1 the score 10,
  respectively 7.5.
\<close>

theorem scoring_curves_counterexample:
  "(0::real) \<le> 0 \<and> (0::real) \<le> 1 \<and> it_score 1 < it_score 0 \<and> rt_score 1 < rt_score 0"
  unfolding it_score_def rt_score_def by simp

text \<open>
  Claim C2, amended. Every sub-metric curve stays in \<open>[0, 100]\<close>, the ratio, turnover
  and runway curves for non-negative values, the margin, working-capital and
  working-capital-cycle curves for all values. The curves of current ratio, quick
  ratio, cash ratio, asset turnover and cash runway are non-decreasing and those of
  debt-to-equity and debt ratio non-increasing on the non-negative values; the curves
  of gross margin, net margin, return on equity and working capital are non-decreasing
  everywhere; the curves of inventory and receivables turnover are non-decreasing on
  the strictly positive values. The curves of current ratio, quick ratio, gross margin,
  net margin, return on equity, debt-to-equity, debt ratio, asset turnover and working
  capital are continuous at every point, so at each breakpoint. (Nothing is said here
  on the direction of the interest-coverage and working-capital-cycle curves, nor on
  the continuity of the curves whose slopes the source rounds.)
\<close>

theorem scoring_curves:
  fixes x y :: real
  shows
  "(0 \<le> x \<longrightarrow>
      0 \<le> liq_cr_score x \<and> liq_cr_score x \<le> 100
      \<and> 0 \<le> liq_qr_score x \<and> liq_qr_score x \<le> 100
      \<and> 0 \<le> liq_cash_score x \<and> liq_cash_score x \<le> 100
      \<and> 0 \<le> de_score x \<and> de_score x \<le> 100
      \<and> 0 \<le> dr_score x \<and> dr_score x \<le> 100
      \<and> 0 \<le> ic_score x \<and> ic_score x \<le> 100
      \<and> 0 \<le> it_score x \<and> it_score x \<le> 100
      \<and> 0 \<le> rt_score x \<and> rt_score x \<le> 100
      \<and> 0 \<le> at_score x \<and> at_score x \<le> 100
      \<and> 0 \<le> cf_cr_score x \<and> cf_cr_score x \<le> 100)
   \<and> 0 \<le> gm_score x \<and> gm_score x \<le> 100
   \<and> 0 \<le> nm_score x \<and> nm_score x \<le> 100
   \<and> 0 \<le> roe_score x \<and> roe_score x \<le> 100
   \<and> 0 \<le> wc_score x \<and> wc_score x \<le> 100
   \<and> 0 \<le> wcc_score x \<and> wcc_score x \<le> 100
   \<and> (0 \<le> x \<and> x \<le> y \<longrightarrow>
        liq_cr_score x \<le> liq_cr_score y
        \<and> liq_qr_score x \<le> liq_qr_score y
        \<and> liq_cash_score x \<le> liq_cash_score y
        \<and> at_score x \<le> at_score y
        \<and> cf_cr_score x \<le> cf_cr_score y
        \<and> de_score y \<le> de_score x
        \<and> dr_score y \<le> dr_score x)
   \<and> (x \<le> y \<longrightarrow>
        gm_score x \<le> gm_score y \<and> nm_score x \<le> nm_score y
        \<and> roe_score x \<le> roe_score y \<and> wc_score x \<le> wc_score y)
   \<and> (0 < x \<and> x \<le> y \<longrightarrow> it_score x \<le> it_score y \<and> rt_score x \<le> rt_score y)
   \<and> isCont liq_cr_score x \<and> isCont liq_qr_score x
   \<and> isCont gm_score x \<and> isCont nm_score x \<and> isCont roe_score x
   \<and> isCont de_score x \<and> isCont dr_score x
   \<and> isCont at_score x \<and> isCont wc_score x"
proof -
  have cont:
    "isCont liq_cr_score x" "isCont liq_qr_score x" "isCont gm_score x" "isCont nm_score x"
    "isCont roe_score x" "isCont de_score x" "isCont dr_score x" "isCont at_score x"
    "isCont wc_score x"
    by (rule lipschitz_isCont [OF _ liq_cr_lip] lipschitz_isCont [OF _ liq_qr_lip]
          lipschitz_isCont [OF _ gm_lip] lipschitz_isCont [OF _ nm_lip]
          lipschitz_isCont [OF _ roe_lip] lipschitz_isCont [OF _ de_lip]
          lipschitz_isCont [OF _ dr_lip] lipschitz_isCont [OF _ at_lip]
          lipschitz_isCont [OF _ wc_lip], simp)+
  show ?thesis
    using cont liq_range [of x] prof_range [of x] solv_range [of x] eff_range [of x]
      cf_range [of x] liq_cr_mono [of x y] liq_qr_mono [of x y] liq_cash_mono [of x y]
      at_mono [of x y] cf_cr_mono [of x y] de_mono [of x y] dr_mono [of x y]
      gm_mono [of x y] nm_mono [of x y] roe_mono [of x y] wc_mono [of x y]
      it_mono [of x y] rt_mono [of x y]
    by blast
qed

text \<open>The values 1 and 2.\<close>

theorem scoring_curves_witness:
  "(0::real) < 1 \<and> (1::real) \<le> 2
   \<and> liq_cr_score 1 = 50 \<and> liq_cr_score 2 = 100 \<and> liq_cr_score 1 \<le> liq_cr_score 2
   \<and> de_score 2 \<le> de_score 1 \<and> dr_score 2 \<le> dr_score 1
   \<and> gm_score 1 \<le> gm_score 2 \<and> it_score 1 \<le> it_score 2 \<and> rt_score 1 \<le> rt_score 2
   \<and> 0 \<le> ic_score 1 \<and> wcc_score 1 \<le> 100 \<and> isCont liq_cr_score 1"
proof -
  have v: "liq_cr_score 1 = 50" "liq_cr_score 2 = 100"
    unfolding liq_cr_score_def by simp_all
  show ?thesis using v scoring_curves [of 1 2] by simp
qed

subsection \<open>Benchmark percentile\<close>

text \<open>
  Every triple of the benchmark table is either the "not applicable" triple \<open>(0, 0, 0)\<close>,
  which \<open>compare_to_industry\<close> skips, or strictly increasing and positive.
\<close>

lemma benchmark_triples_ordered:
  "\<forall>bs \<in> snd ` set BENCHMARKS. \<forall>b \<in> snd ` set bs.
     (low b = 0 \<and> median b = 0 \<and> high b = 0) \<or> (0 < low b \<and> low b < median b \<and> median b < high b)"
  unfolding BENCHMARKS_def by simp

lemma percentile_at_reference_points:
  assumes "0 < lo" "lo < med" "med < hi"
  shows "calculate_percentile lo lo med hi = Inr 25"
    and "calculate_percentile med lo med hi = Inr 50"
    and "calculate_percentile hi lo med hi = Inr 75"
  using assms by (simp_all add: calculate_percentile_def py_div_def ebind_def)

lemma percentile_bands:
  assumes "0 < lo" "lo < med" "med < hi"
  shows "val \<le> lo \<Longrightarrow> calculate_percentile val lo med hi = Inr (val / lo * 25)"
    and "lo < val \<Longrightarrow> val \<le> med \<Longrightarrow>
           calculate_percentile val lo med hi = Inr (25 + (val - lo) / (med - lo) * 25)"
    and "med < val \<Longrightarrow> val \<le> hi \<Longrightarrow>
           calculate_percentile val lo med hi = Inr (50 + (val - med) / (hi - med) * 25)"
    and "hi < val \<Longrightarrow>
           calculate_percentile val lo med hi = Inr (min 100 (75 + (val - hi) / hi * 25))"
  using assms by (auto simp add: calculate_percentile_def py_div_def ebind_def field_simps min_def)

lemma percentile_in_range_nonneg:
  assumes "0 < lo" "lo < med" "med < hi" "0 \<le> val"
  shows "\<exists>p. calculate_percentile val lo med hi = Inr p \<and> 0 \<le> p \<and> p \<le> 100"
proof -
  consider "val \<le> lo" | "lo < val" "val \<le> med" | "med < val" "val \<le> hi" | "hi < val"
    by linarith
  then show ?thesis
  proof cases
    case 1
    have q: "0 \<le> val / lo" "val / lo \<le> 1" using 1 assms by simp_all
    have "0 \<le> val / lo * 25 \<and> val / lo * 25 \<le> 100" using q by argo
    with percentile_bands(1) [OF assms(1-3) 1] show ?thesis by blast
  next
    case 2
    have q: "0 \<le> (val - lo) / (med - lo)" "(val - lo) / (med - lo) \<le> 1"
      using 2 assms by simp_all
    have "0 \<le> 25 + (val - lo) / (med - lo) * 25 \<and> 25 + (val - lo) / (med - lo) * 25 \<le> 100"
      using q by argo
    with percentile_bands(2) [OF assms(1-3) 2] show ?thesis by blast
  next
    case 3
    have q: "0 \<le> (val - med) / (hi - med)" "(val - med) / (hi - med) \<le> 1"
      using 3 assms by simp_all
    have "0 \<le> 50 + (val - med) / (hi - med) * 25 \<and> 50 + (val - med) / (hi - med) * 25 \<le> 100"
      using q by argo
    with percentile_bands(3) [OF assms(1-3) 3] show ?thesis by blast
  next
    case 4
    have q: "0 \<le> (val - hi) / hi" using 4 assms by simp
    have "0 \<le> min 100 (75 + (val - hi) / hi * 25) \<and> min 100 (75 + (val - hi) / hi * 25) \<le> 100"
      using q by (simp add: min_def) argo
    with percentile_bands(4) [OF assms(1-3) 4] show ?thesis by blast
  qed
qed

text \<open>
  Claim C6. The percentile is meant to lie in \<open>[0, 100]\<close>, the band below \<open>low\<close> being
  clamped at 0. The branch below \<open>low\<close> only takes \<open>min(25, ...)\<close>, which never binds
  there, and has no lower clamp, while the branch above \<open>high\<close> does clamp at 100. A
  loss-making company, net margin \<open>-5\<close>, measured against the Manufacturing triple
  \<open>(5, 10, 15)\<close> gets the percentile \<open>-25\<close>.
\<close>

theorem percentile_below_zero:
  "map_of (dget BENCHMARKS ''Manufacturing'' []) ''net_margin''
     = Some \<lparr>low = 5, median = 10, high = 15\<rparr>
   \<and> calculate_percentile (-5) 5 10 15 = Inr (-25)
   \<and> \<not> (0 \<le> (-25::real))"
  by (simp add: calculate_percentile_def py_div_def ebind_def dget_def BENCHMARKS_def)

subsection \<open>Rounding\<close>

text \<open>Rounding to \<open>n\<close> decimals moves a value by at most half a unit of the last place.\<close>

lemma py_round0_of_int: "py_round0 (of_int k) = k"
  by (simp add: py_round0_def)

lemma py_round0_close: "\<bar>of_int (py_round0 x) - x\<bar> \<le> 1 / 2"
  unfolding py_round0_def Let_def by (auto simp: abs_if) linarith+

lemma py_round_close: "\<bar>py_round x n - x\<bar> \<le> 1 / (2 * 10 ^ n)"
proof -
  have p: "(0::real) < 10 ^ n" by simp
  have "\<bar>py_round x n - x\<bar> = \<bar>of_int (py_round0 (x * 10 ^ n)) - x * 10 ^ n\<bar> / 10 ^ n"
    unfolding py_round_def using p by (simp add: field_simps abs_if)
  also have "\<dots> \<le> (1 / 2) / 10 ^ n"
    by (rule divide_right_mono [OF py_round0_close]) simp
  finally show ?thesis by simp
qed

subsection \<open>Revenue forecast\<close>





subsection \<open>Metric extraction\<close>

text \<open>With no key in the input every direct field takes its default and no block runs.\<close>

lemma extract_metrics_empty:
  "extract_metrics str_float [] =
     Inr [(''current_ratio'', 1.5), (''quick_ratio'', 1.0), (''cash_ratio'', 0.5),
          (''gross_margin'', 30), (''net_margin'', 10), (''roe'', 12),
          (''debt_to_equity'', 0.8), (''debt_ratio'', 0.4), (''interest_coverage'', 3.0),
          (''inventory_turnover'', 6), (''receivables_turnover'', 8), (''asset_turnover'', 1.2),
          (''cash_runway_days'', 90), (''working_capital'', 50000),
          (''working_capital_cycle'', 45)]"
  by (simp add: extract_metrics_def DIRECT_FIELDS_def extract_margins_def extract_balance_def
        extract_runway_def has_key_def dget_def py_float_def ebind_def)

text \<open>
  Claim C5. Metric extraction on the empty dictionary returns, for whatever \<open>float()\<close>
  reads from strings, the complete metrics dictionary with every one of the fifteen
  fields at its documented default.
\<close>

theorem empty_input_gives_defaults:
  "extract_metrics str_float [] = Inr DIRECT_FIELDS
   \<and> DIRECT_FIELDS =
       [(''current_ratio'', 1.5), (''quick_ratio'', 1.0), (''cash_ratio'', 0.5),
        (''gross_margin'', 30), (''net_margin'', 10), (''roe'', 12),
        (''debt_to_equity'', 0.8), (''debt_ratio'', 0.4), (''interest_coverage'', 3.0),
        (''inventory_turnover'', 6), (''receivables_turnover'', 8), (''asset_turnover'', 1.2),
        (''cash_runway_days'', 90), (''working_capital'', 50000),
        (''working_capital_cycle'', 45)]"
  using extract_metrics_empty [of str_float] by (simp add: DIRECT_FIELDS_def)








end
